theory Spec2Isabelle
  imports Main
begin

section \<open>Teacher forcing: a shallow embedding of \<^verbatim>\<open>shap/models/_teacher_forcing.py\<close>\<close>

text \<open>
  The class \<^verbatim>\<open>TeacherForcing\<close> scores a fixed target sentence against a sequence model.
  The model, the tokenizer and the wrapped function are opaque collaborators: they are
  fields of an environment record and may fail. Arrays are nested lists, one inner list
  per row; an array without rows carries no column count here. Python integers are
  \<open>int\<close>. The type \<open>'f\<close> stands for \<^verbatim>\<open>float64\<close>: the four operations of numpy and scipy that
  the class applies to scores are fields of the environment too, so that nothing is
  assumed about rounding, overflow, infinities or NaN.
\<close>

subsection \<open>Errors and data\<close>

datatype exn =
    RuntimeError string   \<comment> \<open>what \<^verbatim>\<open>except RuntimeError\<close> catches\<close>
  | OtherError string     \<comment> \<open>any other exception\<close>

datatype error =
    NoStartToken          \<comment> \<open>the \<^verbatim>\<open>ValueError\<close> of lines 348-350\<close>
  | IndexError
  | ValueError            \<comment> \<open>raised by numpy\<close>
  | ShapeError            \<comment> \<open>row counts that do not match in a concatenation\<close>
  | AttributeError
  | UnboundLocalError
  | Raised exn            \<comment> \<open>an exception of the model, the tokenizer or the wrapped function\<close>

datatype backend = Pt | Tf

datatype target = Strs "string list" | Ids "int list list"

record config =
  is_encoder_decoder :: bool
  decoder_start_token_id :: "int option"  \<comment> \<open>\<open>None\<close>: the attribute is missing or is \<^verbatim>\<open>None\<close>\<close>
  bos_token_id :: "int option"
  decoder :: "int option option"
    \<comment> \<open>the nested decoder config, when there is one, and its \<^verbatim>\<open>bos_token_id\<close>\<close>

record encoded =
  input_ids :: "int list list"
  attention_mask :: "int list list"

record model_input =
  m_input_ids :: "int list list"
  m_attention_mask :: "int list list"
  m_position_ids :: "int list list option"
  m_decoder_input_ids :: "int list list option"
  m_labels :: "int list list option"

record 'f env =
  batch_size :: int
  device :: "string option"
  model_agnostic :: bool
  similarity_model_type :: "backend option"
  model_config :: config
  inner_model :: "string list \<Rightarrow> exn + string list"
  tokenizer_call :: "string \<Rightarrow> string list \<Rightarrow> exn + encoded"
    \<comment> \<open>the tokenizer applied to a batch, under the padding side it has at that moment\<close>
  tokenizer_decode :: "int list \<Rightarrow> exn + string"
  keep_prefix :: int
  keep_suffix :: int
    \<comment> \<open>the two counts returned by \<^verbatim>\<open>parse_prefix_suffix_for_tokenizer\<close>\<close>
  forward :: "model_input \<Rightarrow> exn + 'f list list list"
  np_exp :: "'f \<Rightarrow> 'f"             \<comment> \<open>\<^verbatim>\<open>np.exp\<close> on one entry\<close>
  np_sum :: "'f list \<Rightarrow> 'f"        \<comment> \<open>\<^verbatim>\<open>.sum(-1)\<close> of a vector\<close>
  np_divide :: "'f \<Rightarrow> 'f \<Rightarrow> 'f"    \<comment> \<open>\<^verbatim>\<open>/\<close> on one entry\<close>
  sp_logit :: "'f \<Rightarrow> 'f"           \<comment> \<open>\<^verbatim>\<open>sp.special.logit\<close> on one entry: \<open>log (p / (1 - p))\<close>\<close>

text \<open>
  The mutable part: the tokenizer's padding side, the cached target and its names, and
  what \<^verbatim>\<open>print\<close> wrote. Two fields are bookkeeping that the source does not have:
  \<open>names_computed\<close> counts the evaluations of \<^verbatim>\<open>get_output_names\<close>, and \<open>calls\<close> lists
  the arguments the model has been invoked with.
\<close>

record state =
  padding_side :: string
  output_val :: "target option"   \<comment> \<open>\<^verbatim>\<open>self.output\<close>\<close>
  output_names :: "string list option"
  printed :: "string list"
  names_computed :: nat
  calls :: "model_input list"

subsection \<open>Array operations\<close>

definition slice_index :: "int \<Rightarrow> int \<Rightarrow> int" where
  "slice_index n i = (if i < 0 then max (n + i) 0 else min i n)"

definition py_slice :: "int \<Rightarrow> int \<Rightarrow> 'a list \<Rightarrow> 'a list" where
  \<comment> \<open>Python's \<^verbatim>\<open>xs[lo:hi]\<close>\<close>
  "py_slice lo hi xs =
     (let n = int (length xs); l = slice_index n lo; h = slice_index n hi
      in take (nat (h - l)) (drop (nat l) xs))"

definition py_slice_from :: "int \<Rightarrow> 'a list \<Rightarrow> 'a list" where
  \<comment> \<open>Python's \<^verbatim>\<open>xs[lo:]\<close>\<close>
  "py_slice_from lo xs = drop (nat (slice_index (int (length xs)) lo)) xs"

definition target_slice :: "int \<Rightarrow> int \<Rightarrow> target \<Rightarrow> target" where
  "target_slice lo hi Y =
     (case Y of Strs ss \<Rightarrow> Strs (py_slice lo hi ss) | Ids m \<Rightarrow> Ids (py_slice lo hi m))"

definition ncols :: "'a list list \<Rightarrow> nat" where
  \<comment> \<open>\<^verbatim>\<open>a.shape[1]\<close> of an array that has a row\<close>
  "ncols m = (case m of [] \<Rightarrow> 0 | r # _ \<Rightarrow> length r)"

definition concat_cols :: "'a list list \<Rightarrow> 'a list list \<Rightarrow> error + 'a list list" where
  \<comment> \<open>concatenation along the last axis; the row counts must agree\<close>
  "concat_cols a b = (if length a = length b then Inr (map2 (@) a b) else Inl ShapeError)"

definition np_concatenate :: "'a list list \<Rightarrow> 'a list list \<Rightarrow> error + 'a list list" where
  \<comment> \<open>concatenation along the first axis; the column counts must agree\<close>
  "np_concatenate a b =
     (if list_all (\<lambda>r. list_all (\<lambda>r'. length r = length r') b) a
      then Inr (a @ b) else Inl ValueError)"

definition ones_like :: "int list list \<Rightarrow> int list list" where
  "ones_like m = map (map (\<lambda>_. 1)) m"

fun cumsum_from :: "int \<Rightarrow> int list \<Rightarrow> int list" where
  "cumsum_from a [] = []"
| "cumsum_from a (x # xs) = (a + x) # cumsum_from (a + x) xs"

definition cumsum :: "int list \<Rightarrow> int list" where
  "cumsum xs = cumsum_from 0 xs"

definition masked_fill :: "int list list \<Rightarrow> bool list list \<Rightarrow> int \<Rightarrow> int list list" where
  "masked_fill t m v = map2 (map2 (\<lambda>x b. if b then v else x)) t m"

definition tf_where :: "bool list list \<Rightarrow> int \<Rightarrow> int list list \<Rightarrow> int list list" where
  "tf_where c v t = map2 (map2 (\<lambda>b x. if b then v else x)) c t"

definition eq_zero :: "int list list \<Rightarrow> bool list list" where
  \<comment> \<open>the elementwise comparison \<^verbatim>\<open>mask == 0\<close>\<close>
  "eq_zero m = map (map (\<lambda>a. a = 0)) m"

fun sequence :: "(error + 'a) list \<Rightarrow> error + 'a list" where
  \<comment> \<open>evaluation from left to right, stopping at the first exception\<close>
  "sequence [] = Inr []"
| "sequence (x # xs) =
     (case x of Inl e \<Rightarrow> Inl e
      | Inr v \<Rightarrow> (case sequence xs of Inl e \<Rightarrow> Inl e | Inr vs \<Rightarrow> Inr (v # vs)))"

definition is_space :: "char \<Rightarrow> bool" where
  \<comment> \<open>the white space of \<^verbatim>\<open>str.strip\<close> among the code points below 256\<close>
  "is_space c =
     (c \<in> set [CHR 0x20, CHR 0x09, CHR 0x0A, CHR 0x0B, CHR 0x0C, CHR 0x0D,
                CHR 0x1C, CHR 0x1D, CHR 0x1E, CHR 0x1F, CHR 0x85, CHR 0xA0])"

definition strip :: "string \<Rightarrow> string" where
  "strip s = rev (dropWhile is_space (rev (dropWhile is_space s)))"

definition raised :: "exn + 'a \<Rightarrow> error + 'a" where
  \<comment> \<open>an exception of a collaborator, propagating through this module\<close>
  "raised r = (case r of Inl x \<Rightarrow> Inl (Raised x) | Inr v \<Rightarrow> Inr v)"

definition first_row :: "'a list list \<Rightarrow> error + 'a list" where
  \<comment> \<open>\<^verbatim>\<open>a[0]\<close> and \<^verbatim>\<open>a[0, :]\<close>\<close>
  "first_row m = (case m of [] \<Rightarrow> Inl IndexError | r # _ \<Rightarrow> Inr r)"

definition py_index :: "'a list \<Rightarrow> int \<Rightarrow> error + 'a" where
  \<comment> \<open>\<^verbatim>\<open>xs[i]\<close>: an index below zero counts back from the end\<close>
  "py_index xs i =
     (if 0 \<le> i \<and> i < int (length xs) then Inr (xs ! nat i)
      else if - int (length xs) \<le> i \<and> i < 0 then Inr (xs ! nat (int (length xs) + i))
      else Inl IndexError)"

subsection \<open>The target cache (lines 124-180)\<close>

definition get_outputs :: "'f env \<Rightarrow> state \<Rightarrow> target \<Rightarrow> error + int list list" where
  "get_outputs env st X =
     (case X of
        Strs ss \<Rightarrow>
          (case raised (tokenizer_call env (padding_side st) ss) of
             Inl e \<Rightarrow> Inl e
           | Inr enc \<Rightarrow>
               if keep_suffix env > 0
               then Inr (map (py_slice (keep_prefix env) (- keep_suffix env)) (input_ids enc))
               else Inr (map (py_slice_from (keep_prefix env)) (input_ids enc)))
      | Ids m \<Rightarrow> Inr m)"

definition get_output_names :: "'f env \<Rightarrow> state \<Rightarrow> target \<Rightarrow> error + string list" where
  "get_output_names env st out =
     (case get_outputs env st out of
        Inl e \<Rightarrow> Inl e
      | Inr output_ids \<Rightarrow>
          (case first_row output_ids of
             Inl e \<Rightarrow> Inl e
           | Inr row \<Rightarrow>
               sequence (map (\<lambda>x. case raised (tokenizer_decode env [x]) of
                                     Inl e \<Rightarrow> Inl e | Inr s \<Rightarrow> Inr (strip s)) row)))"

definition update_output_names :: "'f env \<Rightarrow> state \<Rightarrow> target \<Rightarrow> (error + unit) \<times> state" where
  "update_output_names env st out =
     (if output_val st = None \<or> output_val st \<noteq> Some out
      then (let st1 = st\<lparr>output_val := Some out, names_computed := Suc (names_computed st)\<rparr>
            in case get_output_names env st1 out of
                 Inl e \<Rightarrow> (Inl e, st1)
               | Inr names \<Rightarrow> (Inr (), st1\<lparr>output_names := Some names\<rparr>))
      else (Inr (), st))"

subsection \<open>The sequence encoder (lines 182-209)\<close>

definition get_inputs :: "'f env \<Rightarrow> state \<Rightarrow> string list \<Rightarrow> string \<Rightarrow> (error + encoded) \<times> state" where
  "get_inputs env st X side =
     (case (if model_agnostic env then raised (inner_model env X) else Inr X) of
        Inl e \<Rightarrow> (Inl e, st)
      | Inr input_sentences \<Rightarrow>
          (let st1 = st\<lparr>padding_side := side\<rparr>
           in case raised (tokenizer_call env (padding_side st1) input_sentences) of
                Inl e \<Rightarrow> (Inl e, st1)
              | Inr inputs \<Rightarrow> (Inr inputs, st1\<lparr>padding_side := ''right''\<rparr>)))"

subsection \<open>Log odds (lines 211-240)\<close>

definition calc_logodds :: "'f env \<Rightarrow> 'f list \<Rightarrow> 'f list" where
  "calc_logodds env arr =
     (let probs = map (\<lambda>e. np_divide env e (np_sum env (map (np_exp env) arr)))
                    (map (np_exp env) arr)
      in map (sp_logit env) probs)"

definition apply_along_axis :: "('a list \<Rightarrow> 'b list) \<Rightarrow> 'a list list list \<Rightarrow> error + 'b list list list" where
  \<comment> \<open>along the last axis; numpy refuses an array with no vector to apply the function to\<close>
  "apply_along_axis f a =
     (if a = [] \<or> ncols a = 0 then Inl ValueError else Inr (map (map f) a))"

definition index_pairs :: "nat \<Rightarrow> int list \<Rightarrow> error + (int \<times> int) list" where
  \<comment> \<open>the two index arrays of line 239, broadcast against each other\<close>
  "index_pairs p ids =
     (if p = length ids then Inr (zip (map int [0..<p]) ids)
      else if p = 1 then Inr (map (\<lambda>i. (0, i)) ids)
      else if length ids = 1 then Inr (map (\<lambda>j. (int j, hd ids)) [0..<p])
      else Inl IndexError)"

definition lookup2 :: "'a list list \<Rightarrow> int \<times> int \<Rightarrow> error + 'a" where
  "lookup2 row ix =
     (case py_index row (fst ix) of Inl e \<Rightarrow> Inl e | Inr v \<Rightarrow> py_index v (snd ix))"

definition select_output_ids :: "'a list list list \<Rightarrow> int list \<Rightarrow> error + 'a list list" where
  \<comment> \<open>\<^verbatim>\<open>logodds[:, np.array(range(logodds.shape[1])), output_ids]\<close>\<close>
  "select_output_ids logodds output_ids =
     (case index_pairs (ncols logodds) output_ids of
        Inl e \<Rightarrow> Inl e
      | Inr ps \<Rightarrow> sequence (map (\<lambda>row. sequence (map (lookup2 row) ps)) logodds))"

definition current_output_ids :: "'f env \<Rightarrow> state \<Rightarrow> error + int list" where
  \<comment> \<open>lines 227-230: the ids for which scores are extracted\<close>
  "current_output_ids env st =
     (case output_val st of
        None \<Rightarrow> Inl AttributeError
      | Some (Strs ss) \<Rightarrow>
          (case get_outputs env st (Strs ss) of Inl e \<Rightarrow> Inl e | Inr m \<Rightarrow> first_row m)
      | Some (Ids m) \<Rightarrow> first_row m)"

definition get_logodds :: "'f env \<Rightarrow> state \<Rightarrow> 'f list list list \<Rightarrow> error + 'f list list" where
  "get_logodds env st logits =
     (case current_output_ids env st of
        Inl e \<Rightarrow> Inl e
      | Inr output_ids \<Rightarrow>
          (case apply_along_axis (calc_logodds env) logits of
             Inl e \<Rightarrow> Inl e
           | Inr logodds \<Rightarrow> select_output_ids logodds output_ids))"

subsection \<open>The forward pass (lines 242-305)\<close>

definition run_forward :: "'f env \<Rightarrow> state \<Rightarrow> model_input \<Rightarrow> (error + 'f list list list) \<times> state" where
  \<comment> \<open>one invocation of \<^verbatim>\<open>self.similarity_model\<close>, with the move of its arguments to the
      device\<close>
  "run_forward env st inp = (raised (forward env inp), st\<lparr>calls := calls st @ [inp]\<rparr>)"

definition pt_position_ids :: "int list list \<Rightarrow> int list list" where
  \<comment> \<open>lines 273-274\<close>
  "pt_position_ids am = masked_fill (map (map (\<lambda>c. c - 1)) (map cumsum am)) (eq_zero am) 0"

definition tf_position_ids :: "int list list \<Rightarrow> int list list" where
  \<comment> \<open>lines 294-295\<close>
  "tf_position_ids am = tf_where (eq_zero am) 0 (map (map (\<lambda>c. c - 1)) (map cumsum am))"

definition tf_on_device :: "'f env \<Rightarrow> state \<Rightarrow> model_input \<Rightarrow> (error + 'f list list list) \<times> state" where
  \<comment> \<open>the \<^verbatim>\<open>if self.device is None\<close> blocks of the tensorflow branch, and line 304 after them\<close>
  "tf_on_device env st inp =
     (case device env of
        None \<Rightarrow> run_forward env st inp
      | Some d \<Rightarrow>
          (case run_forward env st inp of
             (Inl (Raised (RuntimeError err)), st1) \<Rightarrow>
               (Inl UnboundLocalError, st1\<lparr>printed := printed st1 @ [err]\<rparr>)
           | r \<Rightarrow> r))"

definition model_inference ::
  "'f env \<Rightarrow> state \<Rightarrow> encoded \<Rightarrow> int list list \<Rightarrow> (error + 'f list list list) \<times> state" where
  "model_inference env st inputs output_ids =
     (case similarity_model_type env of
        Some Pt \<Rightarrow>
          if is_encoder_decoder (model_config env)
          then run_forward env st
                 \<lparr>m_input_ids = input_ids inputs, m_attention_mask = attention_mask inputs,
                  m_position_ids = None, m_decoder_input_ids = Some output_ids,
                  m_labels = Some output_ids\<rparr>
          else (case concat_cols (input_ids inputs) output_ids of
                  Inl e \<Rightarrow> (Inl e, st)
                | Inr ids \<Rightarrow>
                    (case concat_cols (attention_mask inputs) (ones_like output_ids) of
                       Inl e \<Rightarrow> (Inl e, st)
                     | Inr am \<Rightarrow>
                         run_forward env st
                           \<lparr>m_input_ids = ids, m_attention_mask = am,
                            m_position_ids = Some (pt_position_ids am),
                            m_decoder_input_ids = None, m_labels = None\<rparr>))
      | Some Tf \<Rightarrow>
          if is_encoder_decoder (model_config env)
          then tf_on_device env st
                 \<lparr>m_input_ids = input_ids inputs, m_attention_mask = attention_mask inputs,
                  m_position_ids = None, m_decoder_input_ids = Some output_ids,
                  m_labels = Some output_ids\<rparr>
          else (case concat_cols (input_ids inputs) output_ids of
                  Inl e \<Rightarrow> (Inl e, st)
                | Inr ids \<Rightarrow>
                    (case concat_cols (attention_mask inputs) (ones_like output_ids) of
                       Inl e \<Rightarrow> (Inl e, st)
                     | Inr am \<Rightarrow>
                         tf_on_device env st
                           \<lparr>m_input_ids = ids, m_attention_mask = am,
                            m_position_ids = Some (tf_position_ids am),
                            m_decoder_input_ids = None, m_labels = None\<rparr>))
      | None \<Rightarrow> (Inl UnboundLocalError, st))"

subsection \<open>Teacher forcing (lines 307-364)\<close>

text \<open>
  The test of lines 326-331 on \<^verbatim>\<open>is_encoder_decoder\<close> and \<^verbatim>\<open>is_decoder\<close> guards a \<^verbatim>\<open>pass\<close>
  and has no counterpart here.
\<close>

definition resolve_start_token :: "config \<Rightarrow> error + int" where
  \<comment> \<open>lines 338-350\<close>
  "resolve_start_token c =
     (if decoder_start_token_id c \<noteq> None then Inr (the (decoder_start_token_id c))
      else if bos_token_id c \<noteq> None then Inr (the (bos_token_id c))
      else if decoder c \<noteq> None \<and> the (decoder c) \<noteq> None then Inr (the (the (decoder c)))
      else Inl NoStartToken)"

definition add_start_token :: "int \<Rightarrow> int list list \<Rightarrow> error + int list list" where
  \<comment> \<open>lines 352-353\<close>
  "add_start_token k output_ids =
     (let output_start_id = replicate (length output_ids) [1 * k]
      in concat_cols output_start_id output_ids)"

definition get_teacher_forced_logits ::
  "'f env \<Rightarrow> state \<Rightarrow> string list \<Rightarrow> target \<Rightarrow> (error + 'f list list list) \<times> state" where
  "get_teacher_forced_logits env st X Y =
     (case get_outputs env st Y of
        Inl e \<Rightarrow> (Inl e, st)
      | Inr output_ids \<Rightarrow>
          if is_encoder_decoder (model_config env)
          then (case get_inputs env st X ''right'' of
                  (Inl e, st1) \<Rightarrow> (Inl e, st1)
                | (Inr inputs, st1) \<Rightarrow>
                    (case resolve_start_token (model_config env) of
                       Inl e \<Rightarrow> (Inl e, st1)
                     | Inr k \<Rightarrow>
                         (case add_start_token k output_ids of
                            Inl e \<Rightarrow> (Inl e, st1)
                          | Inr dec \<Rightarrow>
                              (case model_inference env st1 inputs dec of
                                 (Inl e, st2) \<Rightarrow> (Inl e, st2)
                               | (Inr logits, st2) \<Rightarrow>
                                   (Inr (map (py_slice 0 (- 1)) logits), st2)))))
          else (case get_inputs env st X ''left'' of
                  (Inl e, st1) \<Rightarrow> (Inl e, st1)
                | (Inr inputs, st1) \<Rightarrow>
                    (case model_inference env st1 inputs output_ids of
                       (Inl e, st2) \<Rightarrow> (Inl e, st2)
                     | (Inr logits, st2) \<Rightarrow>
                         (Inr (map (py_slice (- int (ncols output_ids) - 1) (- 1)) logits),
                          st2))))"

subsection \<open>The batch driver (lines 92-122)\<close>

definition target_len :: "target \<Rightarrow> nat" where
  "target_len Y = (case Y of Strs ss \<Rightarrow> length ss | Ids m \<Rightarrow> length m)"

definition batch_step ::
  "'f env \<Rightarrow> state \<Rightarrow> string list \<Rightarrow> target \<Rightarrow> (error + 'f list list) \<times> state" where
  \<comment> \<open>lines 115-116, for one chunk\<close>
  "batch_step env st X_batch Y_batch =
     (case get_teacher_forced_logits env st X_batch Y_batch of
        (Inl e, st1) \<Rightarrow> (Inl e, st1)
      | (Inr logits, st1) \<Rightarrow> (get_logodds env st1 logits, st1))"

partial_function (option) call_loop ::
  "'f env \<Rightarrow> string list \<Rightarrow> target \<Rightarrow> int \<Rightarrow> state \<Rightarrow> 'f list list option
     \<Rightarrow> ((error + 'f list list option) \<times> state) option" where
  "call_loop env X Y start_batch_idx st output_batch =
     (if start_batch_idx < int (length X)
      then (case batch_step env st
                   (py_slice start_batch_idx (start_batch_idx + batch_size env) X)
                   (target_slice start_batch_idx (start_batch_idx + batch_size env) Y) of
              (Inl e, st1) \<Rightarrow> Some (Inl e, st1)
            | (Inr logodds, st1) \<Rightarrow>
                (case output_batch of
                   None \<Rightarrow>
                     call_loop env X Y (start_batch_idx + batch_size env) st1 (Some logodds)
                 | Some ob \<Rightarrow>
                     (case np_concatenate ob logodds of
                        Inl e \<Rightarrow> Some (Inl e, st1)
                      | Inr ob' \<Rightarrow>
                          call_loop env X Y (start_batch_idx + batch_size env) st1 (Some ob'))))
      else Some (Inr output_batch, st))"

declare call_loop.simps [code]

definition call ::
  "'f env \<Rightarrow> state \<Rightarrow> string list \<Rightarrow> target \<Rightarrow> ((error + 'f list list option) \<times> state) option" where
  \<comment> \<open>\<^verbatim>\<open>__call__\<close>; the result \<open>None\<close> of the loop is a run that does not return, the
      inner \<open>None\<close> is Python's \<^verbatim>\<open>None\<close>\<close>
  "call env st X Y =
     (case update_output_names env st (target_slice 0 1 Y) of
        (Inl e, st1) \<Rightarrow> Some (Inl e, st1)
      | (Inr u, st1) \<Rightarrow> call_loop env X Y 0 st1 None)"

subsection \<open>A small concrete instance\<close>

text \<open>
  A tokenizer with one token per character, padded with 0 to the longest sentence of the
  batch on the side asked for, and a model over a vocabulary of three tokens that gives
  column \<open>i\<close> the score \<open>i\<close>: one score vector per decoder position for an encoder-decoder
  model, one per input position otherwise. The arithmetic of this instance is symbolic: a
  score is the term of the operations that were applied, so that a result shows what was
  computed from which entry.
\<close>

datatype sym = Lit int | Exp sym | SumOf "sym list" | Div sym sym | Logit sym

definition example_scores :: "sym list" where
  "example_scores = [Lit 0, Lit 1, Lit 2]"

definition example_score :: "int \<Rightarrow> sym" where
  \<comment> \<open>the log odds of column \<open>i\<close> of \<open>example_scores\<close>\<close>
  "example_score i = Logit (Div (Exp (Lit i)) (SumOf [Exp (Lit 0), Exp (Lit 1), Exp (Lit 2)]))"

definition pad_to :: "string \<Rightarrow> nat \<Rightarrow> int list \<Rightarrow> int list" where
  "pad_to side n xs =
     (if side = ''left'' then replicate (n - length xs) 0 @ xs
      else xs @ replicate (n - length xs) 0)"

definition example_tokenizer :: "string \<Rightarrow> string list \<Rightarrow> exn + encoded" where
  "example_tokenizer side ss =
     (let n = foldr max (map length ss) 0
      in Inr \<lparr>input_ids = map (\<lambda>s. pad_to side n (map (\<lambda>c. 2) s)) ss,
              attention_mask = map (\<lambda>s. pad_to side n (map (\<lambda>c. 1) s)) ss\<rparr>)"

definition example_decode :: "int list \<Rightarrow> exn + string" where
  "example_decode ids = Inr (concat (map (\<lambda>i. if i = 2 then '' c'' else ''?'') ids))"

definition example_forward :: "model_input \<Rightarrow> exn + sym list list list" where
  "example_forward inp =
     Inr (map (map (\<lambda>t. example_scores))
            (case m_decoder_input_ids inp of Some d \<Rightarrow> d | None \<Rightarrow> m_input_ids inp))"

definition example_config :: config where
  "example_config =
     \<lparr>is_encoder_decoder = True, decoder_start_token_id = None, bos_token_id = Some 0,
      decoder = None\<rparr>"

definition example_env :: "sym env" where
  "example_env =
     \<lparr>batch_size = 2, device = None, model_agnostic = False,
      similarity_model_type = Some Pt, model_config = example_config,
      inner_model = (\<lambda>X. Inr X), tokenizer_call = example_tokenizer,
      tokenizer_decode = example_decode, keep_prefix = 0, keep_suffix = 0,
      forward = example_forward, np_exp = Exp, np_sum = SumOf, np_divide = Div,
      sp_logit = Logit\<rparr>"

definition example_decoder_env :: "sym env" where
  \<comment> \<open>the same instance with a decoder-only model\<close>
  "example_decoder_env =
     example_env\<lparr>model_config := example_config\<lparr>is_encoder_decoder := False\<rparr>\<rparr>"

definition initial_state :: state where
  \<comment> \<open>the state after \<^verbatim>\<open>__init__\<close> (lines 79-80), with the tokenizer padding on the right\<close>
  "initial_state =
     \<lparr>padding_side = ''right'', output_val = None, output_names = None, printed = [],
      names_computed = 0, calls = []\<rparr>"

subsection \<open>Reference definitions\<close>

definition spec_position_row :: "int list \<Rightarrow> int list" where
  \<comment> \<open>the position ids of one row as the specification words them: the running sum of
      the mask minus one, and 0 where the mask is 0\<close>
  "spec_position_row row =
     map (\<lambda>j. if row ! j = 0 then 0 else sum_list (take (Suc j) row) - 1) [0..<length row]"

definition first_target_ids :: "'f env \<Rightarrow> state \<Rightarrow> target \<Rightarrow> error + int list" where
  \<comment> \<open>the ids of the first row of a target: the row itself when the target is given as
      ids, the tokenization of the first sentence alone when it is given as text\<close>
  "first_target_ids env st Y =
     (case Y of
        Ids m \<Rightarrow> (case m of [] \<Rightarrow> Inl IndexError | row # rest \<Rightarrow> Inr row)
      | Strs ss \<Rightarrow>
          (case get_outputs env st (Strs (take 1 ss)) of
             Inl e \<Rightarrow> Inl e
           | Inr m \<Rightarrow> first_row m))"

definition spec_logodds :: "'f env \<Rightarrow> 'f list \<Rightarrow> int \<Rightarrow> 'f" where
  \<comment> \<open>the log odds of column \<open>i\<close> of one score vector as the specification words them: the
      logit of \<open>exp s / sum (exp scores)\<close>, the scores taken as they are\<close>
  "spec_logodds env scores i =
     sp_logit env
       (np_divide env (np_exp env (scores ! nat i)) (np_sum env (map (np_exp env) scores)))"

text \<open>
  The batch driver with the selection written out: every chunk is scored for the ids of
  the first row of the target \<open>Y\<close> of the call, whatever the chunk's own rows of \<open>Y\<close> are.
\<close>

definition score_first_row ::
  "'f env \<Rightarrow> target \<Rightarrow> state \<Rightarrow> 'f list list list \<Rightarrow> error + 'f list list" where
  "score_first_row env Y st logits =
     (case first_target_ids env st Y of
        Inl e \<Rightarrow> Inl e
      | Inr ids \<Rightarrow>
          (case apply_along_axis (calc_logodds env) logits of
             Inl e \<Rightarrow> Inl e
           | Inr logodds \<Rightarrow> select_output_ids logodds ids))"

definition batch_step_first_row ::
  "'f env \<Rightarrow> target \<Rightarrow> state \<Rightarrow> string list \<Rightarrow> target \<Rightarrow> (error + 'f list list) \<times> state" where
  "batch_step_first_row env Y st X_batch Y_batch =
     (case get_teacher_forced_logits env st X_batch Y_batch of
        (Inl e, st1) \<Rightarrow> (Inl e, st1)
      | (Inr logits, st1) \<Rightarrow> (score_first_row env Y st1 logits, st1))"

partial_function (option) call_loop_first_row ::
  "'f env \<Rightarrow> string list \<Rightarrow> target \<Rightarrow> int \<Rightarrow> state \<Rightarrow> 'f list list option
     \<Rightarrow> ((error + 'f list list option) \<times> state) option" where
  "call_loop_first_row env X Y start_batch_idx st output_batch =
     (if start_batch_idx < int (length X)
      then (case batch_step_first_row env Y st
                   (py_slice start_batch_idx (start_batch_idx + batch_size env) X)
                   (target_slice start_batch_idx (start_batch_idx + batch_size env) Y) of
              (Inl e, st1) \<Rightarrow> Some (Inl e, st1)
            | (Inr logodds, st1) \<Rightarrow>
                (case output_batch of
                   None \<Rightarrow>
                     call_loop_first_row env X Y (start_batch_idx + batch_size env) st1
                       (Some logodds)
                 | Some ob \<Rightarrow>
                     (case np_concatenate ob logodds of
                        Inl e \<Rightarrow> Some (Inl e, st1)
                      | Inr ob' \<Rightarrow>
                          call_loop_first_row env X Y (start_batch_idx + batch_size env) st1
                            (Some ob'))))
      else Some (Inr output_batch, st))"

definition call_first_row ::
  "'f env \<Rightarrow> state \<Rightarrow> string list \<Rightarrow> target \<Rightarrow> ((error + 'f list list option) \<times> state) option" where
  "call_first_row env st X Y =
     (case update_output_names env st (target_slice 0 1 Y) of
        (Inl e, st1) \<Rightarrow> Some (Inl e, st1)
      | (Inr u, st1) \<Rightarrow> call_loop_first_row env X Y 0 st1 None)"

text \<open>
  The batch driver as the specification words it: the rows are split into consecutive
  chunks of a fixed size, every chunk is scored in turn, and the scores are put together
  in the order of the chunks.
\<close>

function chunks :: "nat \<Rightarrow> 'a list \<Rightarrow> 'a list list" where
  "chunks n xs = (if n = 0 \<or> xs = [] then [] else take n xs # chunks n (drop n xs))"
  by pat_completeness auto
termination
  by (relation "measure (\<lambda>(n, xs). length xs)") auto

declare chunks.simps [simp del]

definition target_chunks :: "nat \<Rightarrow> target \<Rightarrow> target list" where
  "target_chunks n Y =
     (case Y of Strs ss \<Rightarrow> map Strs (chunks n ss) | Ids m \<Rightarrow> map Ids (chunks n m))"

definition target_drop :: "nat \<Rightarrow> target \<Rightarrow> target" where
  \<comment> \<open>the target without its first \<open>i\<close> rows\<close>
  "target_drop i Y = (case Y of Strs ss \<Rightarrow> Strs (drop i ss) | Ids m \<Rightarrow> Ids (drop i m))"

fun run_chunks ::
  "'f env \<Rightarrow> state \<Rightarrow> (string list \<times> target) list \<Rightarrow> (error + 'f list list list) \<times> state" where
  "run_chunks env st [] = (Inr [], st)"
| "run_chunks env st (c # cs) =
     (case batch_step env st (fst c) (snd c) of
        (Inl e, st1) \<Rightarrow> (Inl e, st1)
      | (Inr logodds, st1) \<Rightarrow>
          (case run_chunks env st1 cs of
             (Inl e, st2) \<Rightarrow> (Inl e, st2)
           | (Inr rest, st2) \<Rightarrow> (Inr (logodds # rest), st2)))"

section \<open>Properties\<close>

subsection \<open>Shared facts\<close>

lemma raised_not_start: "raised r \<noteq> Inl NoStartToken"
  by (simp add: raised_def split: sum.splits)

lemma get_outputs_not_start: "get_outputs env st Y \<noteq> Inl NoStartToken"
  using raised_not_start [of "tokenizer_call env (padding_side st) ss" for ss]
  by (auto simp: get_outputs_def split: target.splits sum.splits)

lemma get_inputs_not_start: "get_inputs env st X side \<noteq> (Inl NoStartToken, st')"
  by (auto simp: get_inputs_def raised_def Let_def split: sum.splits if_splits)

lemma model_inference_not_start:
  "model_inference env st inputs dec \<noteq> (Inl NoStartToken, st')"
  by (auto simp: model_inference_def run_forward_def tf_on_device_def raised_def concat_cols_def
      split: option.splits backend.splits sum.splits prod.splits error.splits exn.splits if_splits)

lemma add_start_token_eq: "add_start_token k ids = Inr (map ((#) k) ids)"
proof -
  have "map2 (@) (replicate (length ids) [k]) ids = map ((#) k) ids"
    by (induction ids) simp_all
  then show ?thesis
    by (simp add: add_start_token_def concat_cols_def)
qed

lemma resolve_start_token_cases:
  "resolve_start_token c =
     (case decoder_start_token_id c of
        Some k \<Rightarrow> Inr k
      | None \<Rightarrow>
          (case bos_token_id c of
             Some k \<Rightarrow> Inr k
           | None \<Rightarrow> (case decoder c of Some (Some k) \<Rightarrow> Inr k | _ \<Rightarrow> Inl NoStartToken)))"
  by (simp add: resolve_start_token_def split: option.splits)

lemma resolve_start_token_fails:
  "resolve_start_token c = Inl e \<longleftrightarrow>
     e = NoStartToken \<and> decoder_start_token_id c = None \<and> bos_token_id c = None \<and>
     (\<forall>k. decoder c \<noteq> Some (Some k))"
  by (auto simp: resolve_start_token_def split: option.splits)

subsection \<open>The start token of an encoder-decoder model\<close>

lemma missing_start_token_fails:
  assumes "is_encoder_decoder (model_config env)"
    and "decoder_start_token_id (model_config env) = None"
    and "bos_token_id (model_config env) = None"
    and "\<forall>k. decoder (model_config env) \<noteq> Some (Some k)"
  shows "\<exists>e. fst (get_teacher_forced_logits env st X Y) = Inl e"
proof -
  from assms(2-4) have "resolve_start_token (model_config env) = Inl NoStartToken"
    by (simp add: resolve_start_token_fails)
  with assms(1) show ?thesis
    by (simp add: get_teacher_forced_logits_def split: sum.splits prod.splits)
qed

text \<open>
  C3. The start token is the config's \<^verbatim>\<open>decoder_start_token_id\<close> when that is set, else
  its \<^verbatim>\<open>bos_token_id\<close> when that is set, else the \<^verbatim>\<open>bos_token_id\<close> of the nested decoder
  config when there is one and it is set. \<^verbatim>\<open>get_teacher_forced_logits\<close> raises the error
  of lines 348-350 exactly when the model is an encoder-decoder, the two steps before the
  resolution (the target ids, the encoded inputs) went through, and none of the three
  fields is set. For an encoder-decoder model with none of the three fields set the call
  never returns logits: it ends with that error or with an earlier one.
\<close>

theorem start_token_resolution:
  "resolve_start_token (model_config env) =
     (case decoder_start_token_id (model_config env) of
        Some k \<Rightarrow> Inr k
      | None \<Rightarrow>
          (case bos_token_id (model_config env) of
             Some k \<Rightarrow> Inr k
           | None \<Rightarrow>
               (case decoder (model_config env) of
                  Some (Some k) \<Rightarrow> Inr k | _ \<Rightarrow> Inl NoStartToken))) \<and>
   (fst (get_teacher_forced_logits env st X Y) = Inl NoStartToken \<longleftrightarrow>
      is_encoder_decoder (model_config env) \<and>
      (\<exists>ids. get_outputs env st Y = Inr ids) \<and>
      (\<exists>inputs. fst (get_inputs env st X ''right'') = Inr inputs) \<and>
      decoder_start_token_id (model_config env) = None \<and>
      bos_token_id (model_config env) = None \<and>
      (\<forall>k. decoder (model_config env) \<noteq> Some (Some k))) \<and>
   (is_encoder_decoder (model_config env) \<and>
    decoder_start_token_id (model_config env) = None \<and>
    bos_token_id (model_config env) = None \<and>
    (\<forall>k. decoder (model_config env) \<noteq> Some (Some k)) \<longrightarrow>
      (\<exists>e. fst (get_teacher_forced_logits env st X Y) = Inl e))"
proof (intro conjI)
  show "is_encoder_decoder (model_config env) \<and>
    decoder_start_token_id (model_config env) = None \<and>
    bos_token_id (model_config env) = None \<and>
    (\<forall>k. decoder (model_config env) \<noteq> Some (Some k)) \<longrightarrow>
      (\<exists>e. fst (get_teacher_forced_logits env st X Y) = Inl e)"
    using missing_start_token_fails [of env st X Y] by blast
next
  show "resolve_start_token (model_config env) =
     (case decoder_start_token_id (model_config env) of
        Some k \<Rightarrow> Inr k
      | None \<Rightarrow>
          (case bos_token_id (model_config env) of
             Some k \<Rightarrow> Inr k
           | None \<Rightarrow>
               (case decoder (model_config env) of
                  Some (Some k) \<Rightarrow> Inr k | _ \<Rightarrow> Inl NoStartToken)))"
    by (rule resolve_start_token_cases)
next
  show "fst (get_teacher_forced_logits env st X Y) = Inl NoStartToken \<longleftrightarrow>
      is_encoder_decoder (model_config env) \<and>
      (\<exists>ids. get_outputs env st Y = Inr ids) \<and>
      (\<exists>inputs. fst (get_inputs env st X ''right'') = Inr inputs) \<and>
      decoder_start_token_id (model_config env) = None \<and>
      bos_token_id (model_config env) = None \<and>
      (\<forall>k. decoder (model_config env) \<noteq> Some (Some k))"
  proof (cases "get_outputs env st Y")
    case (Inl e)
    with get_outputs_not_start [of env st Y] show ?thesis
      by (simp add: get_teacher_forced_logits_def)
  next
    case ids: (Inr ids)
    show ?thesis
    proof (cases "is_encoder_decoder (model_config env)")
      case False
      with ids show ?thesis
        by (auto simp: get_teacher_forced_logits_def get_inputs_not_start
            model_inference_not_start split: prod.splits sum.splits)
    next
      case True
      obtain r st1 where gi: "get_inputs env st X ''right'' = (r, st1)"
        by (cases "get_inputs env st X ''right''")
      show ?thesis
      proof (cases r)
        case (Inl e)
        with ids True gi get_inputs_not_start [of env st X "''right''" st1] show ?thesis
          by (auto simp: get_teacher_forced_logits_def)
      next
        case inputs: (Inr inputs)
        show ?thesis
        proof (cases "resolve_start_token (model_config env)")
          case (Inl e)
          then have none: "e = NoStartToken \<and> decoder_start_token_id (model_config env) = None \<and>
              bos_token_id (model_config env) = None \<and>
              (\<forall>k. decoder (model_config env) \<noteq> Some (Some k))"
            using resolve_start_token_fails [of "model_config env" e] by blast
          from Inl ids True gi inputs have "fst (get_teacher_forced_logits env st X Y) = Inl e"
            by (simp add: get_teacher_forced_logits_def)
          with none ids gi inputs True show ?thesis
            by simp
        next
          case (Inr k)
          then have "\<not> (decoder_start_token_id (model_config env) = None \<and>
              bos_token_id (model_config env) = None \<and>
              (\<forall>k. decoder (model_config env) \<noteq> Some (Some k)))"
            using resolve_start_token_fails [of "model_config env" NoStartToken] by auto
          with Inr ids True gi inputs show ?thesis
            by (auto simp: get_teacher_forced_logits_def add_start_token_eq
                model_inference_not_start split: prod.splits sum.splits)
        qed
      qed
    qed
  qed
qed

theorem start_token_resolution_witness:
  "is_encoder_decoder
     (model_config (example_env\<lparr>model_config := example_config\<lparr>bos_token_id := None\<rparr>\<rparr>)) \<and>
   fst (get_teacher_forced_logits
     (example_env\<lparr>model_config := example_config\<lparr>bos_token_id := None\<rparr>\<rparr>)
     initial_state [''ab''] (Ids [[1, 0]])) = Inl NoStartToken \<and>
   fst (get_teacher_forced_logits
     (example_env\<lparr>model_config :=
        example_config\<lparr>decoder := Some (Some 1), bos_token_id := None\<rparr>\<rparr>)
     initial_state [''ab''] (Ids [[1, 0]])) \<noteq> Inl NoStartToken \<and>
   resolve_start_token
     (example_config\<lparr>decoder := Some (Some 1), decoder_start_token_id := Some 2\<rparr>) = Inr 2"
  using
    start_token_resolution
      [of "example_env\<lparr>model_config := example_config\<lparr>bos_token_id := None\<rparr>\<rparr>"
        initial_state "[''ab'']" "Ids [[1, 0]]"]
    start_token_resolution
      [of "example_env\<lparr>model_config :=
          example_config\<lparr>decoder := Some (Some 1), bos_token_id := None\<rparr>\<rparr>"
        initial_state "[''ab'']" "Ids [[1, 0]]"]
    start_token_resolution
      [of "example_env\<lparr>model_config :=
          example_config\<lparr>decoder := Some (Some 1), decoder_start_token_id := Some 2\<rparr>\<rparr>"]
  by (simp add: example_env_def example_config_def get_outputs_def get_inputs_def
      example_tokenizer_def raised_def pad_to_def)

subsection \<open>Position ids of a decoder-only model\<close>

lemma length_cumsum_from [simp]: "length (cumsum_from a xs) = length xs"
  by (induction xs arbitrary: a) simp_all

lemma nth_cumsum_from:
  "j < length xs \<Longrightarrow> cumsum_from a xs ! j = a + sum_list (take (Suc j) xs)"
proof (induction xs arbitrary: a j)
  case Nil
  then show ?case by simp
next
  case (Cons x xs)
  show ?case
  proof (cases j)
    case 0
    then show ?thesis by simp
  next
    case (Suc i)
    with Cons.prems have "i < length xs" by simp
    from Cons.IH [OF this, of "a + x"] Suc show ?thesis by simp
  qed
qed

lemma map2_same: "map2 f (map g xs) (map h xs) = map (\<lambda>x. f (g x) (h x)) xs"
  by (induction xs) simp_all

lemma masked_row:
  "map2 (\<lambda>c m. if m = 0 then 0 else c - 1) (cumsum row) row = spec_position_row row"
  by (rule nth_equalityI) (simp_all add: spec_position_row_def cumsum_def nth_cumsum_from)

lemma pt_position_ids_rows: "pt_position_ids am = map spec_position_row am"
proof -
  have "map2 (\<lambda>x b. if b then 0 else x) (map (\<lambda>c. c - 1) (cumsum row)) (map (\<lambda>a. a = 0) row)
      = spec_position_row row" for row
    unfolding masked_row [symmetric] by (simp add: zip_map_map o_def split_def)
  then show ?thesis by (simp add: pt_position_ids_def masked_fill_def eq_zero_def map2_same)
qed

lemma tf_position_ids_rows: "tf_position_ids am = map spec_position_row am"
proof -
  have "map2 (\<lambda>b x. if b then 0 else x) (map (\<lambda>a. a = 0) row) (map (\<lambda>c. c - 1) (cumsum row))
      = spec_position_row row" for row
    unfolding masked_row [symmetric]
    by (simp add: zip_map_map o_def split_def zip_commute [of "cumsum row" row])
  then show ?thesis
    by (simp add: tf_position_ids_def tf_where_def eq_zero_def map2_same)
qed

lemma tf_on_device_calls: "calls (snd (tf_on_device env st inp)) = calls st @ [inp]"
  by (simp add: tf_on_device_def run_forward_def
      split: option.splits sum.splits error.splits exn.splits)

lemma decoder_only_calls:
  assumes "\<not> is_encoder_decoder (model_config env)"
  shows "calls (snd (model_inference env st inputs output_ids)) =
     (if similarity_model_type env \<noteq> None \<and> length (input_ids inputs) = length output_ids \<and>
         length (attention_mask inputs) = length output_ids
      then calls st @
        [\<lparr>m_input_ids = map2 (@) (input_ids inputs) output_ids,
          m_attention_mask = map2 (@) (attention_mask inputs) (ones_like output_ids),
          m_position_ids = Some (map spec_position_row
            (map2 (@) (attention_mask inputs) (ones_like output_ids))),
          m_decoder_input_ids = None, m_labels = None\<rparr>]
      else calls st)"
proof (cases "similarity_model_type env")
  case None
  then show ?thesis by (simp add: model_inference_def)
next
  case (Some b)
  have len: "length (ones_like output_ids) = length output_ids"
    by (simp add: ones_like_def)
  show ?thesis
  proof (cases b)
    case Pt
    with Some assms len show ?thesis
      by (simp add: model_inference_def run_forward_def concat_cols_def pt_position_ids_rows)
  next
    case Tf
    with Some assms len show ?thesis
      by (simp add: model_inference_def tf_on_device_calls concat_cols_def tf_position_ids_rows)
  qed
qed

text \<open>
  C6. In the decoder-only branch of \<^verbatim>\<open>model_inference\<close> the model is invoked at most once,
  and the position ids it is given are, row by row and column by column, 0 where the
  attention mask it is given is 0, and the sum of the mask up to and including that column
  minus one elsewhere. This holds for the pytorch and for the tensorflow backend. The
  model is invoked when a backend is set and the rows of source and target match.
\<close>

theorem decoder_only_position_ids:
  assumes "\<not> is_encoder_decoder (model_config env)"
  shows "\<exists>new. calls (snd (model_inference env st inputs output_ids)) = calls st @ new \<and>
     length new \<le> 1 \<and>
     (\<forall>inp \<in> set new. \<exists>pos. m_position_ids inp = Some pos \<and>
        length pos = length (m_attention_mask inp) \<and>
        (\<forall>b < length pos. length (pos ! b) = length (m_attention_mask inp ! b) \<and>
           (\<forall>j < length (pos ! b).
              pos ! b ! j =
                (if m_attention_mask inp ! b ! j = 0 then 0
                 else sum_list (take (Suc j) (m_attention_mask inp ! b)) - 1)))) \<and>
     (similarity_model_type env \<noteq> None \<and> length (input_ids inputs) = length output_ids \<and>
      length (attention_mask inputs) = length output_ids \<longrightarrow> length new = 1)"
proof -
  let ?P = "\<lambda>inp. \<exists>pos. m_position_ids inp = Some pos \<and>
        length pos = length (m_attention_mask inp) \<and>
        (\<forall>b < length pos. length (pos ! b) = length (m_attention_mask inp ! b) \<and>
           (\<forall>j < length (pos ! b).
              pos ! b ! j =
                (if m_attention_mask inp ! b ! j = 0 then 0
                 else sum_list (take (Suc j) (m_attention_mask inp ! b)) - 1)))"
  have ok: "?P \<lparr>m_input_ids = ids, m_attention_mask = am,
      m_position_ids = Some (map spec_position_row am), m_decoder_input_ids = None,
      m_labels = None\<rparr>" for ids am
    by (simp add: spec_position_row_def)
  show ?thesis
  proof (cases "similarity_model_type env \<noteq> None \<and>
      length (input_ids inputs) = length output_ids \<and>
      length (attention_mask inputs) = length output_ids")
    case False
    with decoder_only_calls [OF assms, of st inputs output_ids] show ?thesis
      by (intro exI [of _ "[]"]) auto
  next
    case True
    let ?inp = "\<lparr>m_input_ids = map2 (@) (input_ids inputs) output_ids,
          m_attention_mask = map2 (@) (attention_mask inputs) (ones_like output_ids),
          m_position_ids = Some (map spec_position_row
            (map2 (@) (attention_mask inputs) (ones_like output_ids))),
          m_decoder_input_ids = None, m_labels = None\<rparr>"
    from True decoder_only_calls [OF assms, of st inputs output_ids]
    have "calls (snd (model_inference env st inputs output_ids)) = calls st @ [?inp]"
      by simp
    with ok [of "map2 (@) (input_ids inputs) output_ids"
        "map2 (@) (attention_mask inputs) (ones_like output_ids)"]
    show ?thesis
      by (intro exI [of _ "[?inp]"]) simp
  qed
qed

theorem decoder_only_position_ids_witness:
  "\<not> is_encoder_decoder (model_config example_decoder_env) \<and>
   calls (snd (model_inference example_decoder_env initial_state
        \<lparr>input_ids = [[0, 2], [2, 2]], attention_mask = [[0, 1], [1, 1]]\<rparr>
        [[1, 2], [1, 2]])) =
     [\<lparr>m_input_ids = [[0, 2, 1, 2], [2, 2, 1, 2]],
       m_attention_mask = [[0, 1, 1, 1], [1, 1, 1, 1]],
       m_position_ids = Some [[0, 0, 1, 2], [0, 1, 2, 3]],
       m_decoder_input_ids = None, m_labels = None\<rparr>]"
  using decoder_only_position_ids [of example_decoder_env initial_state
      "\<lparr>input_ids = [[0, 2], [2, 2]], attention_mask = [[0, 1], [1, 1]]\<rparr>" "[[1, 2], [1, 2]]"]
  by (simp add: example_decoder_env_def example_env_def example_config_def initial_state_def
      model_inference_def run_forward_def concat_cols_def ones_like_def pt_position_ids_def
      masked_fill_def eq_zero_def cumsum_def)

subsection \<open>Alignment for an encoder-decoder model\<close>

lemma py_slice_drop_last: "py_slice 0 (- 1) xs = butlast xs"
  by (cases "xs = []") (simp_all add: py_slice_def slice_index_def butlast_conv_take nat_diff_distrib')

lemma get_inputs_calls: "get_inputs env st X side = (r, st1) \<Longrightarrow> calls st1 = calls st"
  by (auto simp: get_inputs_def Let_def split: sum.splits if_splits)

lemma encoder_decoder_calls:
  assumes "is_encoder_decoder (model_config env)"
  shows "calls (snd (model_inference env st inputs dec)) =
     (if similarity_model_type env \<noteq> None
      then calls st @
        [\<lparr>m_input_ids = input_ids inputs, m_attention_mask = attention_mask inputs,
          m_position_ids = None, m_decoder_input_ids = Some dec, m_labels = Some dec\<rparr>]
      else calls st)"
proof (cases "similarity_model_type env")
  case None
  then show ?thesis by (simp add: model_inference_def)
next
  case (Some b)
  with assms show ?thesis
    by (cases b) (simp_all add: model_inference_def run_forward_def tf_on_device_calls)
qed

text \<open>
  C4. For an encoder-decoder model whose start token \<open>k\<close> is resolved, the decoder input
  handed to \<^verbatim>\<open>model_inference\<close>, and from there to the model (as decoder input and as
  labels), is the target id matrix with \<open>k\<close> put in front of every row. What
  \<^verbatim>\<open>get_teacher_forced_logits\<close> returns is what inference returned with the last position
  of every row removed: a row for which the model gave one score vector per decoder input
  column comes back with exactly as many positions as the target row has ids.
\<close>

theorem encoder_decoder_alignment:
  assumes "is_encoder_decoder (model_config env)"
    and "get_outputs env st Y = Inr ids"
    and "get_inputs env st X ''right'' = (Inr inputs, st1)"
    and "resolve_start_token (model_config env) = Inr k"
  shows "\<exists>r st2 new.
     model_inference env st1 inputs (map ((#) k) ids) = (r, st2) \<and>
     get_teacher_forced_logits env st X Y =
       (case r of Inl e \<Rightarrow> Inl e | Inr logits \<Rightarrow> Inr (map butlast logits), st2) \<and>
     calls st2 = calls st @ new \<and>
     (\<forall>inp \<in> set new. \<exists>dec. m_decoder_input_ids inp = Some dec \<and>
        length dec = length ids \<and> (\<forall>i < length ids. dec ! i = k # ids ! i)) \<and>
     (similarity_model_type env \<noteq> None \<longrightarrow> length new = 1) \<and>
     (\<forall>logits. r = Inr logits \<longrightarrow>
        (\<forall>b < length logits. b < length ids \<longrightarrow>
           length (logits ! b) = length ((map ((#) k) ids) ! b) \<longrightarrow>
           length (map butlast logits ! b) = length (ids ! b)))"
proof -
  obtain r st2 where mi: "model_inference env st1 inputs (map ((#) k) ids) = (r, st2)"
    by (cases "model_inference env st1 inputs (map ((#) k) ids)")
  let ?inp = "\<lparr>m_input_ids = input_ids inputs, m_attention_mask = attention_mask inputs,
      m_position_ids = None, m_decoder_input_ids = Some (map ((#) k) ids),
      m_labels = Some (map ((#) k) ids)\<rparr>"
  let ?new = "if similarity_model_type env \<noteq> None then [?inp] else []"
  have "get_teacher_forced_logits env st X Y =
      (case r of Inl e \<Rightarrow> Inl e | Inr logits \<Rightarrow> Inr (map butlast logits), st2)"
    using assms mi
    by (simp add: get_teacher_forced_logits_def add_start_token_eq py_slice_drop_last
        split: sum.splits)
  moreover have "calls st2 = calls st @ ?new"
    using encoder_decoder_calls [OF assms(1), of st1 inputs "map ((#) k) ids"] mi
      get_inputs_calls [OF assms(3)]
    by simp
  moreover have "\<forall>inp \<in> set ?new. \<exists>dec. m_decoder_input_ids inp = Some dec \<and>
        length dec = length ids \<and> (\<forall>i < length ids. dec ! i = k # ids ! i)"
    by simp
  moreover have "similarity_model_type env \<noteq> None \<longrightarrow> length ?new = 1"
    by simp
  moreover have "\<forall>logits. r = Inr logits \<longrightarrow>
        (\<forall>b < length logits. b < length ids \<longrightarrow>
           length (logits ! b) = length ((map ((#) k) ids) ! b) \<longrightarrow>
           length (map butlast logits ! b) = length (ids ! b))"
    by simp
  ultimately show ?thesis
    using mi by blast
qed

theorem encoder_decoder_alignment_witness:
  "is_encoder_decoder (model_config example_env) \<and>
   get_outputs example_env initial_state (Ids [[1, 2], [1, 2]]) = Inr [[1, 2], [1, 2]] \<and>
   get_inputs example_env initial_state [''ab'', ''c''] ''right'' =
     (Inr \<lparr>input_ids = [[2, 2], [2, 0]], attention_mask = [[1, 1], [1, 0]]\<rparr>, initial_state) \<and>
   resolve_start_token (model_config example_env) = Inr 0 \<and>
   get_teacher_forced_logits example_env initial_state [''ab'', ''c''] (Ids [[1, 2], [1, 2]]) =
     (Inr [[example_scores, example_scores], [example_scores, example_scores]],
      initial_state\<lparr>calls :=
        [\<lparr>m_input_ids = [[2, 2], [2, 0]], m_attention_mask = [[1, 1], [1, 0]],
          m_position_ids = None, m_decoder_input_ids = Some [[0, 1, 2], [0, 1, 2]],
          m_labels = Some [[0, 1, 2], [0, 1, 2]]\<rparr>]\<rparr>)"
proof -
  have h1: "is_encoder_decoder (model_config example_env)"
    by (simp add: example_env_def example_config_def)
  have h2: "get_outputs example_env initial_state (Ids [[1, 2], [1, 2]]) = Inr [[1, 2], [1, 2]]"
    by (simp add: get_outputs_def)
  have h3: "get_inputs example_env initial_state [''ab'', ''c''] ''right'' =
     (Inr \<lparr>input_ids = [[2, 2], [2, 0]], attention_mask = [[1, 1], [1, 0]]\<rparr>, initial_state)"
    by (simp add: get_inputs_def example_env_def example_tokenizer_def pad_to_def raised_def
        initial_state_def)
  have h4: "resolve_start_token (model_config example_env) = Inr 0"
    by (simp add: resolve_start_token_def example_env_def example_config_def)
  have mi: "model_inference example_env initial_state
      \<lparr>input_ids = [[2, 2], [2, 0]], attention_mask = [[1, 1], [1, 0]]\<rparr>
      (map ((#) 0) [[1, 2], [1, 2]]) =
     (Inr [[example_scores, example_scores, example_scores],
           [example_scores, example_scores, example_scores]],
      initial_state\<lparr>calls :=
        [\<lparr>m_input_ids = [[2, 2], [2, 0]], m_attention_mask = [[1, 1], [1, 0]],
          m_position_ids = None, m_decoder_input_ids = Some [[0, 1, 2], [0, 1, 2]],
          m_labels = Some [[0, 1, 2], [0, 1, 2]]\<rparr>]\<rparr>)"
    by (simp add: model_inference_def run_forward_def example_env_def example_config_def
        example_forward_def raised_def initial_state_def)
  from encoder_decoder_alignment [OF h1 h2 h3 h4] mi h1 h2 h3 h4 show ?thesis
    by auto
qed

subsection \<open>Alignment for a decoder-only model\<close>

lemma slice_index_neg: "0 < k \<Longrightarrow> slice_index (int n) (- int k) = int (n - k)"
  by (auto simp: slice_index_def max_def)

lemma py_slice_neg:
  assumes "0 < j" and "0 < k"
  shows "py_slice (- int j) (- int k) row =
     take ((length row - k) - (length row - j)) (drop (length row - j) row)"
proof -
  have "nat (int (length row - k) - int (length row - j)) = (length row - k) - (length row - j)"
    by linarith
  with assms show ?thesis
    by (simp add: py_slice_def slice_index_neg Let_def)
qed

lemma py_slice_window:
  "py_slice (- int t - 1) (- 1) row =
     (if t + 1 \<le> length row then take t (drop (length row - t - 1) row) else butlast row)"
proof -
  have "- int t - 1 = - int (Suc t)" and "(- 1 :: int) = - int 1"
    by simp_all
  then have "py_slice (- int t - 1) (- 1) row = py_slice (- int (Suc t)) (- int 1) row"
    by (simp only:)
  also have "\<dots> = take ((length row - 1) - (length row - Suc t)) (drop (length row - Suc t) row)"
    by (rule py_slice_neg) simp_all
  also have "\<dots> =
     (if t + 1 \<le> length row then take t (drop (length row - t - 1) row) else butlast row)"
  proof (cases "t + 1 \<le> length row")
    case True
    then have "(length row - 1) - (length row - Suc t) = t"
      by linarith
    with True show ?thesis by simp
  next
    case False
    then show ?thesis by (simp add: butlast_conv_take)
  qed
  finally show ?thesis .
qed

text \<open>
  C5, as the code has it. For a decoder-only model the model is given, row by row, the
  source ids followed by the target ids, and the source mask followed by one 1 per target
  id. What \<^verbatim>\<open>get_teacher_forced_logits\<close> returns is the window \<^verbatim>\<open>[-len(target)-1 : -1]\<close> of
  every row of the logits: for a row of at least \<open>len(target) + 1\<close> positions these are
  the \<open>len(target)\<close> positions that end one before the last; a shorter row loses only its
  last position.
\<close>

theorem decoder_only_alignment:
  assumes "\<not> is_encoder_decoder (model_config env)"
    and "get_outputs env st Y = Inr ids"
    and "get_inputs env st X ''left'' = (Inr inputs, st1)"
  shows "\<exists>r st2 new.
     model_inference env st1 inputs ids = (r, st2) \<and>
     get_teacher_forced_logits env st X Y =
       (case r of
          Inl e \<Rightarrow> Inl e
        | Inr logits \<Rightarrow>
            Inr (map (\<lambda>row. if ncols ids + 1 \<le> length row
                             then take (ncols ids) (drop (length row - ncols ids - 1) row)
                             else butlast row) logits), st2) \<and>
     calls st2 = calls st @ new \<and>
     (\<forall>inp \<in> set new.
        length (m_input_ids inp) = length ids \<and> length (m_attention_mask inp) = length ids \<and>
        (\<forall>b < length ids.
           m_input_ids inp ! b = input_ids inputs ! b @ ids ! b \<and>
           m_attention_mask inp ! b =
             attention_mask inputs ! b @ replicate (length (ids ! b)) 1)) \<and>
     (similarity_model_type env \<noteq> None \<and> length (input_ids inputs) = length ids \<and>
      length (attention_mask inputs) = length ids \<longrightarrow> length new = 1)"
proof -
  obtain r st2 where mi: "model_inference env st1 inputs ids = (r, st2)"
    by (cases "model_inference env st1 inputs ids")
  let ?ok = "similarity_model_type env \<noteq> None \<and> length (input_ids inputs) = length ids \<and>
      length (attention_mask inputs) = length ids"
  let ?inp = "\<lparr>m_input_ids = map2 (@) (input_ids inputs) ids,
      m_attention_mask = map2 (@) (attention_mask inputs) (ones_like ids),
      m_position_ids = Some (map spec_position_row
        (map2 (@) (attention_mask inputs) (ones_like ids))),
      m_decoder_input_ids = None, m_labels = None\<rparr>"
  let ?new = "if ?ok then [?inp] else []"
  have "get_teacher_forced_logits env st X Y =
       (case r of
          Inl e \<Rightarrow> Inl e
        | Inr logits \<Rightarrow>
            Inr (map (\<lambda>row. if ncols ids + 1 \<le> length row
                             then take (ncols ids) (drop (length row - ncols ids - 1) row)
                             else butlast row) logits), st2)"
    using assms mi
    by (simp add: get_teacher_forced_logits_def py_slice_window split: sum.splits)
  moreover have "calls st2 = calls st @ ?new"
    using decoder_only_calls [OF assms(1), of st1 inputs ids] mi get_inputs_calls [OF assms(3)]
    by simp
  moreover have "\<forall>inp \<in> set ?new.
        length (m_input_ids inp) = length ids \<and> length (m_attention_mask inp) = length ids \<and>
        (\<forall>b < length ids.
           m_input_ids inp ! b = input_ids inputs ! b @ ids ! b \<and>
           m_attention_mask inp ! b =
             attention_mask inputs ! b @ replicate (length (ids ! b)) 1)"
    by (simp add: ones_like_def map_replicate_const)
  moreover have "?ok \<longrightarrow> length ?new = 1"
    by simp
  ultimately show ?thesis
    using mi by blast
qed

theorem decoder_only_alignment_witness:
  "\<not> is_encoder_decoder (model_config example_decoder_env) \<and>
   get_outputs example_decoder_env initial_state (Ids [[1, 2], [1, 2]]) = Inr [[1, 2], [1, 2]] \<and>
   get_inputs example_decoder_env initial_state [''ab'', ''c''] ''left'' =
     (Inr \<lparr>input_ids = [[2, 2], [0, 2]], attention_mask = [[1, 1], [0, 1]]\<rparr>, initial_state) \<and>
   get_teacher_forced_logits example_decoder_env initial_state [''ab'', ''c'']
       (Ids [[1, 2], [1, 2]]) =
     (Inr [[example_scores, example_scores], [example_scores, example_scores]],
      initial_state\<lparr>calls :=
        [\<lparr>m_input_ids = [[2, 2, 1, 2], [0, 2, 1, 2]],
          m_attention_mask = [[1, 1, 1, 1], [0, 1, 1, 1]],
          m_position_ids = Some [[0, 1, 2, 3], [0, 0, 1, 2]],
          m_decoder_input_ids = None, m_labels = None\<rparr>]\<rparr>)"
proof -
  have h1: "\<not> is_encoder_decoder (model_config example_decoder_env)"
    by (simp add: example_decoder_env_def example_env_def example_config_def)
  have h2: "get_outputs example_decoder_env initial_state (Ids [[1, 2], [1, 2]]) =
      Inr [[1, 2], [1, 2]]"
    by (simp add: get_outputs_def)
  have h3: "get_inputs example_decoder_env initial_state [''ab'', ''c''] ''left'' =
     (Inr \<lparr>input_ids = [[2, 2], [0, 2]], attention_mask = [[1, 1], [0, 1]]\<rparr>, initial_state)"
    by (simp add: get_inputs_def example_decoder_env_def example_env_def
        example_tokenizer_def pad_to_def raised_def initial_state_def)
  have mi: "model_inference example_decoder_env initial_state
      \<lparr>input_ids = [[2, 2], [0, 2]], attention_mask = [[1, 1], [0, 1]]\<rparr> [[1, 2], [1, 2]] =
     (Inr [[example_scores, example_scores, example_scores, example_scores],
           [example_scores, example_scores, example_scores, example_scores]],
      initial_state\<lparr>calls :=
        [\<lparr>m_input_ids = [[2, 2, 1, 2], [0, 2, 1, 2]],
          m_attention_mask = [[1, 1, 1, 1], [0, 1, 1, 1]],
          m_position_ids = Some [[0, 1, 2, 3], [0, 0, 1, 2]],
          m_decoder_input_ids = None, m_labels = None\<rparr>]\<rparr>)"
    by (simp add: model_inference_def run_forward_def example_decoder_env_def example_env_def
        example_config_def example_forward_def raised_def initial_state_def concat_cols_def
        ones_like_def pt_position_ids_def masked_fill_def eq_zero_def cumsum_def)
  from decoder_only_alignment [OF h1 h2 h3] mi h1 h2 h3 show ?thesis
    by (auto simp: ncols_def)
qed

text \<open>
  The claim as it is written fails where the tokenizer gives the source no column (here
  the one source sentence is the empty string): the model then has only the target
  positions to return, and the window keeps one position fewer than the target has ids.
\<close>

theorem decoder_only_window_counterexample:
  "fst (get_teacher_forced_logits example_decoder_env initial_state [[]] (Ids [[1, 2]])) =
     Inr [[example_scores]] \<and>
   length [example_scores] = 1 \<and> ncols [[1, 2 :: int]] = 2"
  by (simp add: get_teacher_forced_logits_def get_outputs_def get_inputs_def
      example_decoder_env_def example_env_def example_config_def example_tokenizer_def
      pad_to_def raised_def initial_state_def model_inference_def run_forward_def
      example_forward_def concat_cols_def ones_like_def ncols_def py_slice_def slice_index_def)

subsection \<open>The target cache\<close>

lemma get_output_names_cache_free:
  "get_output_names env (st\<lparr>output_val := v, names_computed := n\<rparr>) T = get_output_names env st T"
  by (cases T) (simp_all add: get_output_names_def get_outputs_def)

text \<open>
  C7. A call of \<^verbatim>\<open>update_output_names\<close> with the target that is already cached changes
  nothing and computes no names; in particular a second call with the same target, right
  after a first one, returns without any change of the state, whatever the first call did.
  A call with a target other than the cached one (or with nothing cached) stores the new
  target and computes the names once: they become the names of the new target when that
  computation succeeds.
\<close>

theorem update_output_names_cache:
  "(output_val st = Some T \<longrightarrow> update_output_names env st T = (Inr (), st)) \<and>
   update_output_names env (snd (update_output_names env st T)) T =
     (Inr (), snd (update_output_names env st T)) \<and>
   (output_val st \<noteq> Some T \<longrightarrow>
      output_val (snd (update_output_names env st T)) = Some T \<and>
      names_computed (snd (update_output_names env st T)) = Suc (names_computed st) \<and>
      (case get_output_names env st T of
         Inr names \<Rightarrow>
           fst (update_output_names env st T) = Inr () \<and>
           output_names (snd (update_output_names env st T)) = Some names
       | Inl e \<Rightarrow>
           fst (update_output_names env st T) = Inl e \<and>
           output_names (snd (update_output_names env st T)) = output_names st))"
proof (intro conjI impI)
  assume "output_val st = Some T"
  then show "update_output_names env st T = (Inr (), st)"
    by (simp add: update_output_names_def)
next
  have "output_val (snd (update_output_names env st T)) = Some T"
    by (simp add: update_output_names_def Let_def split: sum.splits)
  then show "update_output_names env (snd (update_output_names env st T)) T =
     (Inr (), snd (update_output_names env st T))"
    by (simp add: update_output_names_def)
next
  assume "output_val st \<noteq> Some T"
  then show "output_val (snd (update_output_names env st T)) = Some T"
    by (auto simp: update_output_names_def Let_def split: sum.splits)
next
  assume "output_val st \<noteq> Some T"
  then show "names_computed (snd (update_output_names env st T)) = Suc (names_computed st)"
    by (auto simp: update_output_names_def Let_def split: sum.splits)
next
  assume "output_val st \<noteq> Some T"
  then show "case get_output_names env st T of
         Inr names \<Rightarrow>
           fst (update_output_names env st T) = Inr () \<and>
           output_names (snd (update_output_names env st T)) = Some names
       | Inl e \<Rightarrow>
           fst (update_output_names env st T) = Inl e \<and>
           output_names (snd (update_output_names env st T)) = output_names st"
    by (auto simp: update_output_names_def Let_def get_output_names_cache_free
        split: sum.splits)
qed

theorem update_output_names_cache_witness:
  "output_val initial_state \<noteq> Some (Ids [[2, 2]]) \<and>
   fst (update_output_names example_env initial_state (Ids [[2, 2]])) = Inr () \<and>
   output_val (snd (update_output_names example_env initial_state (Ids [[2, 2]]))) =
     Some (Ids [[2, 2]]) \<and>
   output_names (snd (update_output_names example_env initial_state (Ids [[2, 2]]))) =
     Some [''c'', ''c''] \<and>
   names_computed (snd (update_output_names example_env initial_state (Ids [[2, 2]]))) = 1 \<and>
   update_output_names example_env
       (snd (update_output_names example_env initial_state (Ids [[2, 2]]))) (Ids [[2, 2]]) =
     (Inr (), snd (update_output_names example_env initial_state (Ids [[2, 2]])))"
proof -
  have fresh: "output_val initial_state \<noteq> Some (Ids [[2, 2]])"
    and count: "names_computed initial_state = 0"
    by (simp_all add: initial_state_def)
  have names: "get_output_names example_env initial_state (Ids [[2, 2]]) = Inr [''c'', ''c'']"
    by (simp add: get_output_names_def get_outputs_def first_row_def example_env_def
        example_decode_def raised_def strip_def is_space_def)
  from update_output_names_cache [of initial_state "Ids [[2, 2]]" example_env] fresh count names
  show ?thesis
    by simp
qed

subsection \<open>The padding side of the tokenizer\<close>

lemma get_inputs_restores_padding_side:
  "get_inputs env st X side = (Inr inputs, st1) \<Longrightarrow> padding_side st1 = ''right''"
  by (auto simp: get_inputs_def Let_def split: sum.splits if_splits)

lemma get_inputs_tokenizer_error:
  assumes "\<not> model_agnostic env" and "tokenizer_call env side X = Inl x"
  shows "get_inputs env st X side = (Inl (Raised x), st\<lparr>padding_side := side\<rparr>)"
  using assms by (simp add: get_inputs_def raised_def)

text \<open>
  C8. A call of \<^verbatim>\<open>get_inputs\<close> that returns leaves the padding side at \<^verbatim>\<open>'right'\<close>
  (lemma \<open>get_inputs_restores_padding_side\<close>). A call in which the tokenizer raises does
  not: line 208 is not reached, and the tokenizer keeps the side that line 205 gave it.
  Here the tokenizer has no padding token and refuses to pad; the call with
  \<^verbatim>\<open>padding_side='left'\<close> ends with the exception and the side \<^verbatim>\<open>'left'\<close>.
\<close>

theorem get_inputs_error_leaves_padding_side:
  "get_inputs
     (example_decoder_env\<lparr>tokenizer_call :=
        \<lambda>side ss. Inl (OtherError ''Asking to pad but the tokenizer does not have a padding token'')\<rparr>)
     initial_state [''ab'', ''c''] ''left'' =
   (Inl (Raised (OtherError ''Asking to pad but the tokenizer does not have a padding token'')),
    initial_state\<lparr>padding_side := ''left''\<rparr>) \<and>
   padding_side initial_state = ''right''"
  by (simp add: get_inputs_def raised_def example_decoder_env_def example_env_def
      initial_state_def)

subsection \<open>Failures of the forward pass\<close>

lemma run_forward_fails:
  "forward env inp = Inl x \<Longrightarrow>
   run_forward env st inp = (Inl (Raised x), st\<lparr>calls := calls st @ [inp]\<rparr>)"
  by (simp add: run_forward_def raised_def)

lemma tf_on_device_fails:
  assumes "forward env inp = Inl (RuntimeError m)"
  shows "tf_on_device env st inp =
     (case device env of
        None \<Rightarrow> (Inl (Raised (RuntimeError m)), st\<lparr>calls := calls st @ [inp]\<rparr>)
      | Some d \<Rightarrow>
          (Inl UnboundLocalError, st\<lparr>calls := calls st @ [inp], printed := printed st @ [m]\<rparr>))"
  using assms by (simp add: tf_on_device_def run_forward_fails split: option.splits)

text \<open>
  C9, as the code has it. Let the forward pass raise a \<^verbatim>\<open>RuntimeError\<close> with message \<open>m\<close>,
  and let the rows of source and target match where the model is decoder-only. With the
  pytorch backend, and with the tensorflow backend when no device is configured, there is
  no handler: \<^verbatim>\<open>model_inference\<close> ends with that very exception and prints nothing. With
  the tensorflow backend and a device configured the exception is caught and \<open>m\<close> is
  printed; the call does not end with the \<^verbatim>\<open>RuntimeError\<close>.
\<close>

theorem forward_failure_handling:
  assumes "\<forall>inp. forward env inp = Inl (RuntimeError m)"
    and "is_encoder_decoder (model_config env) \<or>
         length (input_ids inputs) = length output_ids \<and>
         length (attention_mask inputs) = length output_ids"
  shows "(similarity_model_type env = Some Pt \<or>
          similarity_model_type env = Some Tf \<and> device env = None \<longrightarrow>
            fst (model_inference env st inputs output_ids) = Inl (Raised (RuntimeError m)) \<and>
            printed (snd (model_inference env st inputs output_ids)) = printed st) \<and>
         (similarity_model_type env = Some Tf \<and> device env \<noteq> None \<longrightarrow>
            printed (snd (model_inference env st inputs output_ids)) = printed st @ [m] \<and>
            fst (model_inference env st inputs output_ids) \<noteq> Inl (Raised (RuntimeError m)))"
proof -
  have f: "forward env inp = Inl (RuntimeError m)" for inp
    using assms(1) by simp
  have len: "length (ones_like output_ids) = length output_ids"
    by (simp add: ones_like_def)
  show ?thesis
  proof (cases "is_encoder_decoder (model_config env)")
    case True
    then show ?thesis
      by (auto simp: model_inference_def run_forward_fails [OF f] tf_on_device_fails [OF f])
  next
    case False
    with assms(2) len show ?thesis
      by (auto simp: model_inference_def concat_cols_def run_forward_fails [OF f]
          tf_on_device_fails [OF f])
  qed
qed

theorem forward_failure_handling_witness:
  "(\<forall>inp. forward (example_env\<lparr>similarity_model_type := Some Tf, device := Some ''/GPU:7'',
       forward := \<lambda>inp. Inl (RuntimeError ''no such device'')\<rparr>) inp =
     Inl (RuntimeError ''no such device'')) \<and>
   is_encoder_decoder (model_config (example_env\<lparr>similarity_model_type := Some Tf,
     device := Some ''/GPU:7'', forward := \<lambda>inp. Inl (RuntimeError ''no such device'')\<rparr>)) \<and>
   printed (snd (model_inference (example_env\<lparr>similarity_model_type := Some Tf,
       device := Some ''/GPU:7'', forward := \<lambda>inp. Inl (RuntimeError ''no such device'')\<rparr>)
     initial_state \<lparr>input_ids = [[2]], attention_mask = [[1]]\<rparr> [[0, 1]])) =
     [''no such device'']"
proof -
  let ?env = "example_env\<lparr>similarity_model_type := Some Tf, device := Some ''/GPU:7'',
       forward := \<lambda>inp. Inl (RuntimeError ''no such device'')\<rparr>"
  have h1: "\<forall>inp. forward ?env inp = Inl (RuntimeError ''no such device'')"
    by simp
  have h2: "is_encoder_decoder (model_config ?env)"
    by (simp add: example_env_def example_config_def)
  have h3: "similarity_model_type ?env = Some Tf \<and> device ?env \<noteq> None"
    by simp
  have "printed initial_state = []"
    by (simp add: initial_state_def)
  with forward_failure_handling [OF h1 disjI1 [OF h2], of initial_state
      "\<lparr>input_ids = [[2]], attention_mask = [[1]]\<rparr>" "[[0, 1]]"] h1 h2 h3
  show ?thesis
    by simp
qed

text \<open>
  The claim as it is written fails for the pytorch backend: the exception of the forward
  pass is what the caller gets, and nothing is printed.
\<close>

theorem forward_failure_counterexample:
  "model_inference (example_env\<lparr>forward := \<lambda>inp. Inl (RuntimeError ''no such device'')\<rparr>)
     initial_state \<lparr>input_ids = [[2]], attention_mask = [[1]]\<rparr> [[0, 1]] =
   (Inl (Raised (RuntimeError ''no such device'')),
    initial_state\<lparr>calls :=
      [\<lparr>m_input_ids = [[2]], m_attention_mask = [[1]], m_position_ids = None,
        m_decoder_input_ids = Some [[0, 1]], m_labels = Some [[0, 1]]\<rparr>]\<rparr>) \<and>
   printed initial_state = [] \<and>
   similarity_model_type (example_env\<lparr>forward :=
     \<lambda>inp. Inl (RuntimeError ''no such device'')\<rparr>) = Some Pt"
  by (simp add: model_inference_def run_forward_def raised_def example_env_def
      example_config_def initial_state_def)


subsection \<open>Log odds of the target ids\<close>

lemma sequence_all_ok:
  "(\<And>x. x \<in> set xs \<Longrightarrow> g x = Inr (f x)) \<Longrightarrow> sequence (map g xs) = Inr (map f xs)"
  by (induction xs) simp_all

lemma length_calc_logodds [simp]: "length (calc_logodds env arr) = length arr"
  by (simp add: calc_logodds_def)

lemma nth_calc_logodds:
  "0 \<le> i \<Longrightarrow> nat i < length arr \<Longrightarrow> calc_logodds env arr ! nat i = spec_logodds env arr i"
  by (simp add: calc_logodds_def spec_logodds_def)

lemma py_index_in_range:
  "0 \<le> i \<Longrightarrow> i < int (length xs) \<Longrightarrow> py_index xs i = Inr (xs ! nat i)"
  by (simp add: py_index_def)

lemma lookup2_in_range:
  assumes "0 \<le> fst ix" and "fst ix < int (length row)"
    and "0 \<le> snd ix" and "snd ix < int (length (row ! nat (fst ix)))"
  shows "lookup2 row ix = Inr (row ! nat (fst ix) ! nat (snd ix))"
  using assms by (simp add: lookup2_def py_index_in_range)

lemma select_by_pairs:
  assumes pairs: "index_pairs (ncols a) ids = Inr ps"
    and range: "\<And>row ix. row \<in> set a \<Longrightarrow> ix \<in> set ps \<Longrightarrow>
      0 \<le> fst ix \<and> fst ix < int (length row) \<and>
      0 \<le> snd ix \<and> snd ix < int (length (row ! nat (fst ix)))"
  shows "select_output_ids a ids =
     Inr (map (\<lambda>row. map (\<lambda>ix. row ! nat (fst ix) ! nat (snd ix)) ps) a)"
proof -
  have "sequence (map (lookup2 row) ps) =
      Inr (map (\<lambda>ix. row ! nat (fst ix) ! nat (snd ix)) ps)" if "row \<in> set a" for row
    by (rule sequence_all_ok) (use range [OF that] in \<open>simp add: lookup2_in_range\<close>)
  then have "sequence (map (\<lambda>row. sequence (map (lookup2 row) ps)) a) =
      Inr (map (\<lambda>row. map (\<lambda>ix. row ! nat (fst ix) ! nat (snd ix)) ps) a)"
    by (rule sequence_all_ok)
  with pairs show ?thesis
    by (simp add: select_output_ids_def)
qed

lemma get_logodds_by_pairs:
  assumes ids: "current_output_ids env st = Inr ids"
    and nonempty: "logits \<noteq> []" "0 < n"
    and rows: "\<forall>row \<in> set logits. length row = n"
    and vocab: "\<forall>row \<in> set logits. \<forall>scores \<in> set row. \<forall>i \<in> set ids.
      0 \<le> i \<and> i < int (length scores)"
    and pairs: "index_pairs n ids = Inr ps"
    and ps: "\<forall>ix \<in> set ps. 0 \<le> fst ix \<and> fst ix < int n \<and> snd ix \<in> set ids"
  shows "get_logodds env st logits =
     Inr (map (\<lambda>row. map (\<lambda>ix. spec_logodds env (row ! nat (fst ix)) (snd ix)) ps) logits)"
proof -
  let ?a = "map (map (calc_logodds env)) logits"
  from nonempty rows have n: "ncols logits = n"
    by (cases logits) (simp_all add: ncols_def)
  with nonempty have along: "apply_along_axis (calc_logodds env) logits = Inr ?a"
    by (simp add: apply_along_axis_def)
  from nonempty n have na: "ncols ?a = n"
    by (cases logits) (simp_all add: ncols_def)
  have sel: "select_output_ids ?a ids =
      Inr (map (\<lambda>row. map (\<lambda>ix. row ! nat (fst ix) ! nat (snd ix)) ps) ?a)"
  proof (rule select_by_pairs)
    show "index_pairs (ncols ?a) ids = Inr ps"
      using pairs na by simp
  next
    fix row ix assume "row \<in> set ?a" and ix: "ix \<in> set ps"
    then obtain r where r: "r \<in> set logits" and row: "row = map (calc_logodds env) r"
      by auto
    from rows r have len: "length r = n" by simp
    from ps ix have p: "0 \<le> fst ix" "fst ix < int n" and i: "snd ix \<in> set ids"
      by auto
    from p len have "nat (fst ix) < length r" by linarith
    then have "r ! nat (fst ix) \<in> set r" by simp
    with vocab r i have "0 \<le> snd ix \<and> snd ix < int (length (r ! nat (fst ix)))"
      by blast
    with p len row \<open>nat (fst ix) < length r\<close>
    show "0 \<le> fst ix \<and> fst ix < int (length row) \<and>
        0 \<le> snd ix \<and> snd ix < int (length (row ! nat (fst ix)))"
      by simp
  qed
  have "map (\<lambda>ix. map (calc_logodds env) r ! nat (fst ix) ! nat (snd ix)) ps =
      map (\<lambda>ix. spec_logodds env (r ! nat (fst ix)) (snd ix)) ps" if r: "r \<in> set logits" for r
  proof (rule map_cong [OF refl])
    fix ix assume ix: "ix \<in> set ps"
    from rows r have len: "length r = n" by simp
    from ps ix have p: "0 \<le> fst ix" "fst ix < int n" and i: "snd ix \<in> set ids"
      by auto
    from p len have lt: "nat (fst ix) < length r" by linarith
    then have "r ! nat (fst ix) \<in> set r" by simp
    with vocab r i have "0 \<le> snd ix" "nat (snd ix) < length (r ! nat (fst ix))"
      by (auto simp: nat_less_iff)
    with lt show "map (calc_logodds env) r ! nat (fst ix) ! nat (snd ix) =
        spec_logodds env (r ! nat (fst ix)) (snd ix)"
      by (simp add: nth_calc_logodds)
  qed
  then have "map (\<lambda>row. map (\<lambda>ix. row ! nat (fst ix) ! nat (snd ix)) ps) ?a =
      map (\<lambda>row. map (\<lambda>ix. spec_logodds env (row ! nat (fst ix)) (snd ix)) ps) logits"
    by (simp add: o_def)
  with ids along sel show ?thesis
    by (simp add: get_logodds_def)
qed

text \<open>
  C2, as the code has it. Let the logits have at least one row, every row \<open>n \<ge> 1\<close>
  positions, and let every target id be a column of every score vector. The entry that
  \<^verbatim>\<open>get_logodds\<close> returns for a score vector and a target id is the logit of
  \<open>exp s / sum (exp scores)\<close>, with \<open>s\<close> the entry of the vector in the column of the id:
  the operations of numpy and scipy applied to the scores as they are. Which vector meets
  which id is decided by line 239. With as many positions as target ids, position \<open>p\<close>
  meets the id of position \<open>p\<close>, and the result has one row per row of the logits and one
  entry per target id. With one target id and another number of positions, that id meets
  every position, and a row of the result has one entry per position. With one position
  and another number of target ids, that position meets every id. Any other two counts
  end in an \<^verbatim>\<open>IndexError\<close>.
\<close>

theorem get_logodds_selects_target_ids:
  assumes "current_output_ids env st = Inr ids"
    and "logits \<noteq> []" and "0 < n"
    and "\<forall>row \<in> set logits. length row = n"
    and "\<forall>row \<in> set logits. \<forall>scores \<in> set row. \<forall>i \<in> set ids.
      0 \<le> i \<and> i < int (length scores)"
  shows
    "(n = length ids \<longrightarrow>
        (\<exists>out. get_logodds env st logits = Inr out \<and> length out = length logits \<and>
           (\<forall>b < length logits. length (out ! b) = length ids \<and>
              (\<forall>p < length ids. out ! b ! p = spec_logodds env (logits ! b ! p) (ids ! p))))) \<and>
     (n \<noteq> length ids \<and> length ids = 1 \<longrightarrow>
        (\<exists>out. get_logodds env st logits = Inr out \<and> length out = length logits \<and>
           (\<forall>b < length logits. length (out ! b) = n \<and>
              (\<forall>p < n. out ! b ! p = spec_logodds env (logits ! b ! p) (ids ! 0))))) \<and>
     (n \<noteq> length ids \<and> n = 1 \<longrightarrow>
        (\<exists>out. get_logodds env st logits = Inr out \<and> length out = length logits \<and>
           (\<forall>b < length logits. length (out ! b) = length ids \<and>
              (\<forall>t < length ids. out ! b ! t = spec_logodds env (logits ! b ! 0) (ids ! t))))) \<and>
     (n \<noteq> length ids \<and> n \<noteq> 1 \<and> length ids \<noteq> 1 \<longrightarrow>
        get_logodds env st logits = Inl IndexError)"
proof (intro conjI impI)
  assume eq: "n = length ids"
  let ?ps = "zip (map int [0..<n]) ids"
  have zip_eq: "?ps = map (\<lambda>p. (int p, ids ! p)) [0..<length ids]"
    using eq by (intro nth_equalityI) simp_all
  have "index_pairs n ids = Inr ?ps"
    using eq by (simp add: index_pairs_def)
  moreover have "\<forall>ix \<in> set ?ps. 0 \<le> fst ix \<and> fst ix < int n \<and> snd ix \<in> set ids"
    unfolding zip_eq using eq by auto
  ultimately have "get_logodds env st logits =
      Inr (map (\<lambda>row. map (\<lambda>ix. spec_logodds env (row ! nat (fst ix)) (snd ix)) ?ps) logits)"
    by (rule get_logodds_by_pairs [OF assms])
  then show "\<exists>out. get_logodds env st logits = Inr out \<and> length out = length logits \<and>
      (\<forall>b < length logits. length (out ! b) = length ids \<and>
         (\<forall>p < length ids. out ! b ! p = spec_logodds env (logits ! b ! p) (ids ! p)))"
    unfolding zip_eq by simp
next
  assume "n \<noteq> length ids \<and> length ids = 1"
  then have ne: "n \<noteq> length ids" and one: "length ids = 1" by simp_all
  let ?ps = "map (\<lambda>j. (int j, hd ids)) [0..<n]"
  from one have hd: "hd ids = ids ! 0" "ids ! 0 \<in> set ids"
    by (cases ids; simp)+
  from assms(3) ne one have "n \<noteq> 1" by simp
  with ne one have "index_pairs n ids = Inr ?ps"
    by (simp add: index_pairs_def)
  moreover have "\<forall>ix \<in> set ?ps. 0 \<le> fst ix \<and> fst ix < int n \<and> snd ix \<in> set ids"
    using hd by auto
  ultimately have "get_logodds env st logits =
      Inr (map (\<lambda>row. map (\<lambda>ix. spec_logodds env (row ! nat (fst ix)) (snd ix)) ?ps) logits)"
    by (rule get_logodds_by_pairs [OF assms])
  then show "\<exists>out. get_logodds env st logits = Inr out \<and> length out = length logits \<and>
      (\<forall>b < length logits. length (out ! b) = n \<and>
         (\<forall>p < n. out ! b ! p = spec_logodds env (logits ! b ! p) (ids ! 0)))"
    using hd by (simp add: o_def)
next
  assume "n \<noteq> length ids \<and> n = 1"
  then have ne: "n \<noteq> length ids" and one: "n = 1" by simp_all
  let ?ps = "map (\<lambda>i. (0 :: int, i)) ids"
  from ne one have "index_pairs n ids = Inr ?ps"
    by (simp add: index_pairs_def)
  moreover have "\<forall>ix \<in> set ?ps. 0 \<le> fst ix \<and> fst ix < int n \<and> snd ix \<in> set ids"
    using one by auto
  ultimately have "get_logodds env st logits =
      Inr (map (\<lambda>row. map (\<lambda>ix. spec_logodds env (row ! nat (fst ix)) (snd ix)) ?ps) logits)"
    by (rule get_logodds_by_pairs [OF assms])
  then show "\<exists>out. get_logodds env st logits = Inr out \<and> length out = length logits \<and>
      (\<forall>b < length logits. length (out ! b) = length ids \<and>
         (\<forall>t < length ids. out ! b ! t = spec_logodds env (logits ! b ! 0) (ids ! t)))"
    by (simp add: o_def)
next
  assume other: "n \<noteq> length ids \<and> n \<noteq> 1 \<and> length ids \<noteq> 1"
  from assms(2-4) have n: "ncols logits = n"
    by (cases logits) (simp_all add: ncols_def)
  with assms(2,3) have along: "apply_along_axis (calc_logodds env) logits =
      Inr (map (map (calc_logodds env)) logits)"
    by (simp add: apply_along_axis_def)
  from assms(2) n have "ncols (map (map (calc_logodds env)) logits) = n"
    by (cases logits) (simp_all add: ncols_def)
  with other have "select_output_ids (map (map (calc_logodds env)) logits) ids = Inl IndexError"
    by (simp add: select_output_ids_def index_pairs_def)
  with assms(1) along show "get_logodds env st logits = Inl IndexError"
    by (simp add: get_logodds_def)
qed

theorem get_logodds_selects_target_ids_witness:
  "current_output_ids example_env (initial_state\<lparr>output_val := Some (Ids [[2, 0]])\<rparr>) =
     Inr [2, 0] \<and>
   get_logodds example_env (initial_state\<lparr>output_val := Some (Ids [[2, 0]])\<rparr>)
     [[[Lit 3, Lit 5, Lit 8], [Lit 4, Lit 6, Lit 9]]] =
     Inr [[Logit (Div (Exp (Lit 8)) (SumOf [Exp (Lit 3), Exp (Lit 5), Exp (Lit 8)])),
           Logit (Div (Exp (Lit 4)) (SumOf [Exp (Lit 4), Exp (Lit 6), Exp (Lit 9)]))]]"
proof -
  let ?st = "initial_state\<lparr>output_val := Some (Ids [[2, 0]])\<rparr>"
  let ?lg = "[[[Lit 3, Lit 5, Lit 8], [Lit 4, Lit 6, Lit 9]]]"
  have h1: "current_output_ids example_env ?st = Inr [2, 0]"
    by (simp add: current_output_ids_def first_row_def)
  have h2: "?lg \<noteq> []" and h3: "0 < (2 :: nat)"
    by simp_all
  have h4: "\<forall>row \<in> set ?lg. length row = 2"
    by simp
  have h5: "\<forall>row \<in> set ?lg. \<forall>scores \<in> set row. \<forall>i \<in> set [2, 0 :: int].
      0 \<le> i \<and> i < int (length scores)"
    by simp
  from get_logodds_selects_target_ids [OF h1 h2 h3 h4 h5]
  obtain out where out: "get_logodds example_env ?st ?lg = Inr out"
    and ent: "\<forall>b < length ?lg. length (out ! b) = length [2, 0 :: int] \<and>
        (\<forall>p < length [2, 0 :: int].
           out ! b ! p = spec_logodds example_env (?lg ! b ! p) ([2, 0] ! p))"
    by auto
  have direct: "get_logodds example_env ?st ?lg =
     Inr [[Logit (Div (Exp (Lit 8)) (SumOf [Exp (Lit 3), Exp (Lit 5), Exp (Lit 8)])),
           Logit (Div (Exp (Lit 4)) (SumOf [Exp (Lit 4), Exp (Lit 6), Exp (Lit 9)]))]]"
    by (simp add: get_logodds_def current_output_ids_def first_row_def apply_along_axis_def
        ncols_def calc_logodds_def select_output_ids_def index_pairs_def lookup2_def
        py_index_def example_env_def)
  with h1 out ent show ?thesis
    by simp
qed

text \<open>
  The claim as it is written fails where the logits have more positions than the target
  has ids: one target id is broadcast over two positions, and the result has the shape
  (batch size, number of positions), here \<open>1 \<times> 2\<close> for a target of length 1.
\<close>

theorem get_logodds_shape_counterexample:
  "get_logodds example_env (initial_state\<lparr>output_val := Some (Ids [[2]])\<rparr>)
     [[[Lit 3, Lit 5, Lit 8], [Lit 4, Lit 6, Lit 9]]] =
     Inr [[Logit (Div (Exp (Lit 8)) (SumOf [Exp (Lit 3), Exp (Lit 5), Exp (Lit 8)])),
           Logit (Div (Exp (Lit 9)) (SumOf [Exp (Lit 4), Exp (Lit 6), Exp (Lit 9)]))]] \<and>
   current_output_ids example_env (initial_state\<lparr>output_val := Some (Ids [[2]])\<rparr>) = Inr [2] \<and>
   length [2 :: int] = 1"
  by (simp add: get_logodds_def current_output_ids_def first_row_def apply_along_axis_def
      ncols_def calc_logodds_def select_output_ids_def index_pairs_def lookup2_def
      py_index_def example_env_def)

subsection \<open>The target ids that select the scores\<close>

lemma py_slice_first: "py_slice 0 1 xs = take 1 xs"
  by (cases xs) (simp_all add: py_slice_def slice_index_def)

lemma get_inputs_output_val: "output_val (snd (get_inputs env st X side)) = output_val st"
  by (simp add: get_inputs_def Let_def split: sum.splits)

lemma tf_on_device_output_val: "output_val (snd (tf_on_device env st inp)) = output_val st"
  by (simp add: tf_on_device_def run_forward_def
      split: option.splits sum.splits error.splits exn.splits)

lemma model_inference_output_val:
  "output_val (snd (model_inference env st inputs ids)) = output_val st"
  by (simp add: model_inference_def run_forward_def tf_on_device_output_val
      split: option.splits backend.splits sum.splits)

lemma get_teacher_forced_logits_output_val:
  "output_val (snd (get_teacher_forced_logits env st X Y)) = output_val st"
proof (cases "get_outputs env st Y")
  case (Inl e)
  then show ?thesis by (simp add: get_teacher_forced_logits_def)
next
  case ids: (Inr ids)
  let ?side = "if is_encoder_decoder (model_config env) then ''right'' else ''left''"
  obtain r1 st1 where gi: "get_inputs env st X ?side = (r1, st1)"
    by (cases "get_inputs env st X ?side")
  with get_inputs_output_val [of env st X ?side] have k1: "output_val st1 = output_val st"
    by simp
  show ?thesis
  proof (cases r1)
    case (Inl e)
    with ids gi k1 show ?thesis
      by (simp add: get_teacher_forced_logits_def split: if_splits)
  next
    case inputs: (Inr inputs)
    have k2: "output_val (snd (model_inference env st1 inputs dec)) = output_val st" for dec
      using model_inference_output_val [of env st1 inputs dec] k1 by simp
    show ?thesis
    proof (cases "is_encoder_decoder (model_config env)")
      case False
      with ids gi inputs k2 [of ids] show ?thesis
        by (cases "model_inference env st1 inputs ids")
          (simp add: get_teacher_forced_logits_def split: sum.splits)
    next
      case True
      show ?thesis
      proof (cases "resolve_start_token (model_config env)")
        case (Inl e)
        with True ids gi inputs k1 show ?thesis
          by (simp add: get_teacher_forced_logits_def)
      next
        case (Inr k)
        with True ids gi inputs k2 [of "map ((#) k) ids"] show ?thesis
          by (cases "model_inference env st1 inputs (map ((#) k) ids)")
            (simp add: get_teacher_forced_logits_def add_start_token_eq split: sum.splits)
      qed
    qed
  qed
qed

lemma batch_step_output_val: "output_val (snd (batch_step env st X Y)) = output_val st"
proof (cases "get_teacher_forced_logits env st X Y")
  case (Pair r st1)
  with get_teacher_forced_logits_output_val [of env st X Y] show ?thesis
    by (cases r) (simp_all add: batch_step_def)
qed

lemma current_output_ids_first_row:
  assumes "output_val st = Some (target_slice 0 1 Y)"
  shows "current_output_ids env st = first_target_ids env st Y"
proof (cases Y)
  case (Strs ss)
  with assms show ?thesis
    by (simp add: current_output_ids_def first_target_ids_def target_slice_def py_slice_first)
next
  case (Ids m)
  with assms show ?thesis
    by (cases m)
      (simp_all add: current_output_ids_def first_target_ids_def target_slice_def
        py_slice_first first_row_def)
qed

lemma first_target_ids_slice:
  "first_target_ids env st (target_slice 0 1 Y) = first_target_ids env st Y"
proof (cases Y)
  case (Strs ss)
  then show ?thesis
    by (simp add: first_target_ids_def target_slice_def py_slice_first)
next
  case (Ids m)
  then show ?thesis
    by (cases m) (simp_all add: first_target_ids_def target_slice_def py_slice_first)
qed

lemma get_logodds_first_row:
  assumes "output_val st = Some (target_slice 0 1 Y)"
  shows "get_logodds env st logits = score_first_row env Y st logits"
  using current_output_ids_first_row [OF assms, of env]
  by (simp add: get_logodds_def score_first_row_def)

lemma batch_step_first_row_eq:
  assumes "output_val st = Some (target_slice 0 1 Y)"
  shows "batch_step env st X_batch Y_batch = batch_step_first_row env Y st X_batch Y_batch"
proof (cases "get_teacher_forced_logits env st X_batch Y_batch")
  case (Pair r st1)
  with get_teacher_forced_logits_output_val [of env st X_batch Y_batch] assms
  have "output_val st1 = Some (target_slice 0 1 Y)"
    by simp
  with Pair show ?thesis
    by (cases r) (simp_all add: batch_step_def batch_step_first_row_def get_logodds_first_row)
qed

lemma call_loop_to_first_row:
  assumes "call_loop env X Y start st acc = Some res"
  shows "output_val st = Some (target_slice 0 1 Y) \<longrightarrow>
     call_loop_first_row env X Y start st acc = Some res"
proof (rule call_loop.raw_induct
    [where P = "\<lambda>env X Y start st acc res. output_val st = Some (target_slice 0 1 Y) \<longrightarrow>
       call_loop_first_row env X Y start st acc = Some res", OF _ assms], goal_cases)
  case (1 loop env X Y start st acc res)
  show ?case
  proof
    assume inv: "output_val st = Some (target_slice 0 1 Y)"
    let ?Xb = "py_slice start (start + batch_size env) X"
    let ?Yb = "target_slice start (start + batch_size env) Y"
    obtain q st1 where step: "batch_step env st ?Xb ?Yb = (q, st1)"
      by (cases "batch_step env st ?Xb ?Yb")
    with batch_step_first_row_eq [OF inv, of env ?Xb ?Yb]
    have step': "batch_step_first_row env Y st ?Xb ?Yb = (q, st1)"
      by simp
    from step batch_step_output_val [of env st ?Xb ?Yb] inv
    have inv1: "output_val st1 = Some (target_slice 0 1 Y)"
      by simp
    show "call_loop_first_row env X Y start st acc = Some res"
    proof (cases "start < int (length X)")
      case False
      with 1(2) show ?thesis
        by (subst call_loop_first_row.simps) simp
    next
      case True
      show ?thesis
      proof (cases q)
        case (Inl e)
        with 1(2) True step step' show ?thesis
          by (subst call_loop_first_row.simps) simp
      next
        case (Inr logodds)
        show ?thesis
        proof (cases acc)
          case None
          with 1(2) True step Inr
          have "loop env X Y (start + batch_size env) st1 (Some logodds) = Some res"
            by simp
          from 1(1) [OF this] inv1 None True step' Inr show ?thesis
            by (subst call_loop_first_row.simps) simp
        next
          case (Some ob)
          show ?thesis
          proof (cases "np_concatenate ob logodds")
            case (Inl e)
            with 1(2) True step step' \<open>q = Inr logodds\<close> Some show ?thesis
              by (subst call_loop_first_row.simps) simp
          next
            case cat: (Inr ob')
            with 1(2) True step Inr Some
            have "loop env X Y (start + batch_size env) st1 (Some ob') = Some res"
              by simp
            from 1(1) [OF this] inv1 Some True step' Inr cat show ?thesis
              by (subst call_loop_first_row.simps) simp
          qed
        qed
      qed
    qed
  qed
qed

lemma call_loop_from_first_row:
  assumes "call_loop_first_row env X Y start st acc = Some res"
  shows "output_val st = Some (target_slice 0 1 Y) \<longrightarrow> call_loop env X Y start st acc = Some res"
proof (rule call_loop_first_row.raw_induct
    [where P = "\<lambda>env X Y start st acc res. output_val st = Some (target_slice 0 1 Y) \<longrightarrow>
       call_loop env X Y start st acc = Some res", OF _ assms], goal_cases)
  case (1 loop env X Y start st acc res)
  show ?case
  proof
    assume inv: "output_val st = Some (target_slice 0 1 Y)"
    let ?Xb = "py_slice start (start + batch_size env) X"
    let ?Yb = "target_slice start (start + batch_size env) Y"
    obtain q st1 where step: "batch_step env st ?Xb ?Yb = (q, st1)"
      by (cases "batch_step env st ?Xb ?Yb")
    with batch_step_first_row_eq [OF inv, of env ?Xb ?Yb]
    have step': "batch_step_first_row env Y st ?Xb ?Yb = (q, st1)"
      by simp
    from step batch_step_output_val [of env st ?Xb ?Yb] inv
    have inv1: "output_val st1 = Some (target_slice 0 1 Y)"
      by simp
    show "call_loop env X Y start st acc = Some res"
    proof (cases "start < int (length X)")
      case False
      with 1(2) show ?thesis
        by (subst call_loop.simps) simp
    next
      case True
      show ?thesis
      proof (cases q)
        case (Inl e)
        with 1(2) True step step' show ?thesis
          by (subst call_loop.simps) simp
      next
        case (Inr logodds)
        show ?thesis
        proof (cases acc)
          case None
          with 1(2) True step' Inr
          have "loop env X Y (start + batch_size env) st1 (Some logodds) = Some res"
            by simp
          from 1(1) [OF this] inv1 None True step Inr show ?thesis
            by (subst call_loop.simps) simp
        next
          case (Some ob)
          show ?thesis
          proof (cases "np_concatenate ob logodds")
            case (Inl e)
            with 1(2) True step step' \<open>q = Inr logodds\<close> Some show ?thesis
              by (subst call_loop.simps) simp
          next
            case cat: (Inr ob')
            with 1(2) True step' Inr Some
            have "loop env X Y (start + batch_size env) st1 (Some ob') = Some res"
              by simp
            from 1(1) [OF this] inv1 Some True step Inr cat show ?thesis
              by (subst call_loop.simps) simp
          qed
        qed
      qed
    qed
  qed
qed

lemma call_loop_first_row_eq:
  assumes "output_val st = Some (target_slice 0 1 Y)"
  shows "call_loop env X Y start st acc = call_loop_first_row env X Y start st acc"
proof (cases "call_loop env X Y start st acc")
  case (Some res)
  with call_loop_to_first_row [OF Some] assms show ?thesis
    by simp
next
  case None
  show ?thesis
  proof (cases "call_loop_first_row env X Y start st acc")
    case (Some res)
    with call_loop_from_first_row [OF Some] assms None show ?thesis
      by simp
  next
    case none: None
    with None show ?thesis by simp
  qed
qed

lemma update_output_names_caches:
  "update_output_names env st T = (Inr u, st1) \<Longrightarrow> output_val st1 = Some T"
  by (auto simp: update_output_names_def Let_def split: if_splits sum.splits)

text \<open>
  C10. \<^verbatim>\<open>__call__\<close> is the driver that scores every chunk for the ids of the first row of
  \<open>Y\<close>: the two agree on every input, in what they return, in the state they leave, and
  in not returning. The reason is that a successful \<^verbatim>\<open>update_output_names(Y[:1])\<close> leaves
  the first row of \<open>Y\<close> in the cache, that a chunk step started with that cache is the
  step that selects by the ids of that row and ends with the same cache, and so for every
  chunk in turn. In a state with that cache the ids read at lines 227-230 are those of
  the first row of \<open>Y\<close> (for a target given as text: of its first sentence tokenized
  alone), and a target with the same first row has the same ids: no other row of \<open>Y\<close>
  takes part in the selection.
\<close>

theorem logodds_use_first_target_row:
  "call env st X Y = call_first_row env st X Y \<and>
   (\<forall>u st1. update_output_names env st (target_slice 0 1 Y) = (Inr u, st1) \<longrightarrow>
      output_val st1 = Some (target_slice 0 1 Y)) \<and>
   (\<forall>st' X_batch Y_batch. output_val st' = Some (target_slice 0 1 Y) \<longrightarrow>
      batch_step env st' X_batch Y_batch = batch_step_first_row env Y st' X_batch Y_batch \<and>
      output_val (snd (batch_step env st' X_batch Y_batch)) = Some (target_slice 0 1 Y)) \<and>
   (\<forall>st' logits. output_val st' = Some (target_slice 0 1 Y) \<longrightarrow>
      current_output_ids env st' = first_target_ids env st' Y \<and>
      get_logodds env st' logits = score_first_row env Y st' logits) \<and>
   (\<forall>st' Y'. target_slice 0 1 Y' = target_slice 0 1 Y \<longrightarrow>
      first_target_ids env st' Y' = first_target_ids env st' Y)"
proof (intro conjI allI impI)
  show "call env st X Y = call_first_row env st X Y"
  proof (cases "update_output_names env st (target_slice 0 1 Y)")
    case (Pair r st1)
    show ?thesis
    proof (cases r)
      case (Inl e)
      with Pair show ?thesis
        by (simp add: call_def call_first_row_def)
    next
      case (Inr u)
      with Pair have "output_val st1 = Some (target_slice 0 1 Y)"
        by (simp add: update_output_names_caches)
      from call_loop_first_row_eq [OF this, of env X 0 None] Pair Inr show ?thesis
        by (simp add: call_def call_first_row_def)
    qed
  qed
  show "output_val st1 = Some (target_slice 0 1 Y)"
    if "update_output_names env st (target_slice 0 1 Y) = (Inr u, st1)" for u st1
    using that by (rule update_output_names_caches)
  show "batch_step env st' X_batch Y_batch = batch_step_first_row env Y st' X_batch Y_batch"
    if "output_val st' = Some (target_slice 0 1 Y)" for st' X_batch Y_batch
    using that by (rule batch_step_first_row_eq)
  show "output_val (snd (batch_step env st' X_batch Y_batch)) = Some (target_slice 0 1 Y)"
    if "output_val st' = Some (target_slice 0 1 Y)" for st' X_batch Y_batch
    using that batch_step_output_val [of env st' X_batch Y_batch] by simp
  show "current_output_ids env st' = first_target_ids env st' Y"
    if "output_val st' = Some (target_slice 0 1 Y)" for st'
    using that by (rule current_output_ids_first_row)
  show "get_logodds env st' logits = score_first_row env Y st' logits"
    if "output_val st' = Some (target_slice 0 1 Y)" for st' logits
    using that by (rule get_logodds_first_row)
  show "first_target_ids env st' Y' = first_target_ids env st' Y"
    if "target_slice 0 1 Y' = target_slice 0 1 Y" for st' Y'
    using that first_target_ids_slice [of env st' Y] first_target_ids_slice [of env st' Y']
    by simp
qed

theorem logodds_use_first_target_row_witness:
  "output_val (initial_state\<lparr>output_val := Some (Ids [[1, 0]])\<rparr>) =
     Some (target_slice 0 1 (Ids [[1, 0], [2, 2], [0, 1]])) \<and>
   get_logodds example_env (initial_state\<lparr>output_val := Some (Ids [[1, 0]])\<rparr>)
     [[example_scores, example_scores]] = Inr [[example_score 1, example_score 0]] \<and>
   map_option fst
     (call example_env initial_state [''ab'', ''c'', ''d''] (Ids [[1, 0], [2, 2], [0, 1]])) =
     Some (Inr (Some [[example_score 1, example_score 0], [example_score 1, example_score 0],
                      [example_score 1, example_score 0]])) \<and>
   call example_env initial_state [''ab'', ''c'', ''d''] (Ids [[1, 0], [2, 2], [0, 1]]) =
     call_first_row example_env initial_state [''ab'', ''c'', ''d''] (Ids [[1, 0], [2, 2], [0, 1]])"
proof -
  let ?X = "[''ab'', ''c'', ''d'']"
  let ?Y = "Ids [[1, 0], [2, 2], [0, 1]]"
  let ?st = "initial_state\<lparr>output_val := Some (Ids [[1, 0]])\<rparr>"
  note main = logodds_use_first_target_row [of example_env initial_state ?X ?Y]
  have first: "target_slice 0 1 ?Y = Ids [[1, 0]]"
    by (simp add: target_slice_def py_slice_first)
  then have cached: "output_val ?st = Some (target_slice 0 1 ?Y)"
    by simp
  have ids: "first_target_ids example_env ?st ?Y = Inr [1, 0]"
    by (simp add: first_target_ids_def)
  from main cached have "get_logodds example_env ?st [[example_scores, example_scores]] =
      score_first_row example_env ?Y ?st [[example_scores, example_scores]]"
    by blast
  also have "\<dots> = Inr [[example_score 1, example_score 0]]"
    unfolding score_first_row_def ids
    by (simp add: apply_along_axis_def ncols_def calc_logodds_def
        select_output_ids_def index_pairs_def lookup2_def py_index_def example_env_def
        example_scores_def example_score_def)
  finally have scored: "get_logodds example_env ?st [[example_scores, example_scores]] =
      Inr [[example_score 1, example_score 0]]" .
  have run: "map_option fst (call example_env initial_state ?X ?Y) =
      Some (Inr (Some [[example_score 1, example_score 0], [example_score 1, example_score 0],
                       [example_score 1, example_score 0]]))"
    apply (simp add: call_def update_output_names_def Let_def initial_state_def first
        get_output_names_def get_outputs_def first_row_def example_decode_def raised_def
        strip_def is_space_def example_env_def)
    apply (subst call_loop.simps)
    apply (simp add: batch_step_def get_teacher_forced_logits_def target_slice_def py_slice_def
        slice_index_def get_outputs_def get_inputs_def example_env_def example_config_def
        example_tokenizer_def pad_to_def raised_def resolve_start_token_def add_start_token_eq
        model_inference_def run_forward_def example_forward_def get_logodds_def
        current_output_ids_def first_row_def apply_along_axis_def ncols_def calc_logodds_def
        select_output_ids_def index_pairs_def lookup2_def py_index_def example_scores_def
        example_score_def)
    apply (subst call_loop.simps)
    apply (simp add: batch_step_def get_teacher_forced_logits_def target_slice_def py_slice_def
        slice_index_def get_outputs_def get_inputs_def example_config_def
        example_tokenizer_def pad_to_def raised_def resolve_start_token_def add_start_token_eq
        model_inference_def run_forward_def example_forward_def get_logodds_def
        current_output_ids_def first_row_def apply_along_axis_def ncols_def calc_logodds_def
        select_output_ids_def index_pairs_def lookup2_def py_index_def example_scores_def
        np_concatenate_def)
    apply (subst call_loop.simps)
    apply simp
    done
  from main have "call example_env initial_state ?X ?Y =
      call_first_row example_env initial_state ?X ?Y"
    by blast
  with cached scored run show ?thesis
    by simp
qed

subsection \<open>The batch driver\<close>

lemma chunks_empty [simp]: "chunks n [] = []"
  by (simp add: chunks.simps)

lemma chunks_step:
  "0 < n \<Longrightarrow> xs \<noteq> [] \<Longrightarrow> chunks n xs = take n xs # chunks n (drop n xs)"
  by (subst chunks.simps) simp

lemma concat_chunks: "0 < n \<Longrightarrow> concat (chunks n xs) = xs"
proof (induction n xs rule: chunks.induct)
  case (1 n xs)
  then show ?case
    by (cases "xs = []") (simp_all add: chunks_step)
qed

lemma chunks_sizes: "c \<in> set (chunks n xs) \<Longrightarrow> 0 < length c \<and> length c \<le> n"
proof (induction n xs rule: chunks.induct)
  case (1 n xs)
  show ?case
  proof (cases "n = 0 \<or> xs = []")
    case True
    with 1(2) show ?thesis by (auto simp: chunks.simps)
  next
    case False
    with 1 show ?thesis
      by (auto simp: chunks_step)
  qed
qed

lemma slice_index_nonneg: "0 \<le> i \<Longrightarrow> slice_index (int n) i = min i (int n)"
  by (simp add: slice_index_def)

lemma py_slice_chunk: "py_slice (int i) (int i + int n) xs = take n (drop i xs)"
proof -
  have "nat (min (int i + int n) (int (length xs)) - min (int i) (int (length xs))) =
      min n (length xs - i)"
    by linarith
  moreover have "nat (min (int i) (int (length xs))) = min i (length xs)"
    by linarith
  ultimately show ?thesis
    by (simp add: py_slice_def slice_index_nonneg Let_def min_def drop_all)
qed

lemma target_chunks_done: "target_len Y \<le> i \<Longrightarrow> target_chunks n (target_drop i Y) = []"
  by (cases Y) (simp_all add: target_chunks_def target_drop_def target_len_def)

lemma target_chunks_step:
  assumes "0 < n" and "i < target_len Y"
  shows "target_chunks n (target_drop i Y) =
     target_slice (int i) (int i + int n) Y # target_chunks n (target_drop (i + n) Y)"
  using assms
  by (cases Y)
    (simp_all add: target_chunks_def target_drop_def target_len_def target_slice_def
      py_slice_chunk chunks_step add.commute)

lemma np_concatenate_same_width:
  assumes "\<forall>row \<in> set a. length row = w" and "\<forall>row \<in> set b. length row = w"
  shows "np_concatenate a b = Inr (a @ b)"
  using assms by (simp add: np_concatenate_def list_all_iff)

lemma call_loop_chunks:
  assumes n: "0 < n" "batch_size env = int n"
    and len: "target_len Y = length X"
    and run: "run_chunks env st
        (zip (chunks n (drop i X)) (target_chunks n (target_drop i Y))) = (Inr outs, st2)"
    and w_acc: "\<forall>ob. acc = Some ob \<longrightarrow> (\<forall>row \<in> set ob. length row = w)"
    and w_outs: "\<forall>out \<in> set outs. \<forall>row \<in> set out. length row = w"
  shows "call_loop env X Y (int i) st acc =
     Some (Inr (case acc of
                  None \<Rightarrow> if outs = [] then None else Some (concat outs)
                | Some ob \<Rightarrow> Some (ob @ concat outs)), st2)"
  using run w_acc w_outs
proof (induction "length X - i" arbitrary: i st acc outs rule: less_induct)
  case less
  show ?case
  proof (cases "i < length X")
    case False
    then have "chunks n (drop i X) = []" by simp
    with less.prems(1) have "outs = []" "st2 = st" by simp_all
    with False show ?thesis
      by (subst call_loop.simps) (simp split: option.splits)
  next
    case True
    let ?Xb = "take n (drop i X)"
    let ?Yb = "target_slice (int i) (int i + int n) Y"
    let ?rest = "zip (chunks n (drop (i + n) X)) (target_chunks n (target_drop (i + n) Y))"
    from True n(1) have cx: "chunks n (drop i X) = ?Xb # chunks n (drop (i + n) X)"
      by (simp add: chunks_step add.commute)
    from True len n(1) have cy: "target_chunks n (target_drop i Y) =
        ?Yb # target_chunks n (target_drop (i + n) Y)"
      by (simp add: target_chunks_step)
    obtain q st1 where step: "batch_step env st ?Xb ?Yb = (q, st1)"
      by (cases "batch_step env st ?Xb ?Yb")
    obtain q' st2' where rest: "run_chunks env st1 ?rest = (q', st2')"
      by (cases "run_chunks env st1 ?rest")
    from less.prems(1) cx cy step rest
    obtain lo los where q: "q = Inr lo" and q': "q' = Inr los" and outs: "outs = lo # los"
      and st2: "st2' = st2"
      by (cases q; cases q') auto
    from less.prems(3) outs have w_lo: "\<forall>row \<in> set lo. length row = w"
      and w_los: "\<forall>out \<in> set los. \<forall>row \<in> set out. length row = w"
      by simp_all
    have dec: "length X - (i + n) < length X - i"
      using True n(1) by linarith
    have unfold: "call_loop env X Y (int i) st acc =
        (case acc of
           None \<Rightarrow> call_loop env X Y (int (i + n)) st1 (Some lo)
         | Some ob \<Rightarrow>
             (case np_concatenate ob lo of
                Inl e \<Rightarrow> Some (Inl e, st1)
              | Inr ob' \<Rightarrow> call_loop env X Y (int (i + n)) st1 (Some ob')))"
      using True step q n(2)
      by (subst call_loop.simps) (simp add: py_slice_chunk split: option.splits sum.splits)
    show ?thesis
    proof (cases acc)
      case None
      have "call_loop env X Y (int (i + n)) st1 (Some lo) =
          Some (Inr (Some (lo @ concat los)), st2)"
        using less.hyps [OF dec, of st1 los "Some lo"] rest q' st2 w_lo w_los by simp
      with unfold None outs show ?thesis by simp
    next
      case (Some ob)
      with less.prems(2) have "\<forall>row \<in> set ob. length row = w" by simp
      with w_lo have cat: "np_concatenate ob lo = Inr (ob @ lo)"
        and w_cat: "\<forall>row \<in> set (ob @ lo). length row = w"
        by (simp_all add: np_concatenate_same_width [of ob w lo] ball_Un)
      have "call_loop env X Y (int (i + n)) st1 (Some (ob @ lo)) =
          Some (Inr (Some ((ob @ lo) @ concat los)), st2)"
        using less.hyps [OF dec, of st1 los "Some (ob @ lo)"] rest q' st2 w_cat w_los by simp
      with unfold Some cat outs show ?thesis by simp
    qed
  qed
qed

lemma length_concat_rows:
  "list_all2 (\<lambda>c out. length out = length c) cs outs \<Longrightarrow>
   length (concat outs) = length (concat cs)"
  by (induction rule: list_all2_induct) simp_all

text \<open>
  C1, as the code has it. Let the batch size be positive, \<open>X\<close> have at least one row and
  \<open>Y\<close> as many rows as \<open>X\<close>, let the update of the target cache succeed, and let every
  chunk be scored without an error, with one row of scores per row of the chunk and the
  same number of columns throughout. Then \<^verbatim>\<open>__call__\<close> returns, and what it returns is the
  scores of the consecutive chunks of at most \<open>batch_size\<close> rows, put together in the order
  of the chunks: an array with as many rows as \<open>X\<close>.
\<close>

theorem call_concatenates_chunks:
  assumes "0 < batch_size env" and "X \<noteq> []" and "target_len Y = length X"
    and "update_output_names env st (target_slice 0 1 Y) = (Inr u, st1)"
    and "run_chunks env st1
        (zip (chunks (nat (batch_size env)) X) (target_chunks (nat (batch_size env)) Y)) =
        (Inr outs, st2)"
    and "list_all2 (\<lambda>c out. length out = length c) (chunks (nat (batch_size env)) X) outs"
    and "\<forall>out \<in> set outs. \<forall>row \<in> set out. length row = w"
  shows "call env st X Y = Some (Inr (Some (concat outs)), st2) \<and>
     length (concat outs) = length X \<and>
     concat (chunks (nat (batch_size env)) X) = X \<and>
     (\<forall>c \<in> set (chunks (nat (batch_size env)) X).
        0 < length c \<and> int (length c) \<le> batch_size env)"
proof -
  let ?n = "nat (batch_size env)"
  from assms(1) have n: "0 < ?n" "batch_size env = int ?n"
    by simp_all
  have whole: "concat (chunks ?n X) = X"
    using n(1) by (rule concat_chunks)
  from assms(2) n(1) have "chunks ?n X \<noteq> []"
    by (simp add: chunks_step)
  with assms(6) have "outs \<noteq> []"
    by (auto simp: list_all2_Nil2)
  have "target_drop 0 Y = Y"
    by (cases Y) (simp_all add: target_drop_def)
  with assms(5) have run: "run_chunks env st1
      (zip (chunks ?n (drop 0 X)) (target_chunks ?n (target_drop 0 Y))) = (Inr outs, st2)"
    by simp
  have "call_loop env X Y (int 0) st1 None =
      Some (Inr (if outs = [] then None else Some (concat outs)), st2)"
    using call_loop_chunks [OF n assms(3) run _ assms(7), of None] by simp
  with \<open>outs \<noteq> []\<close> assms(4) have "call env st X Y = Some (Inr (Some (concat outs)), st2)"
    by (simp add: call_def)
  moreover from length_concat_rows [OF assms(6)] whole
  have "length (concat outs) = length X"
    by simp
  moreover have "\<forall>c \<in> set (chunks ?n X). 0 < length c \<and> int (length c) \<le> batch_size env"
  proof
    fix c assume "c \<in> set (chunks ?n X)"
    then have "0 < length c \<and> length c \<le> ?n"
      by (rule chunks_sizes)
    with assms(1) show "0 < length c \<and> int (length c) \<le> batch_size env"
      by linarith
  qed
  ultimately show ?thesis
    using whole by simp
qed

theorem call_concatenates_chunks_witness:
  "0 < batch_size example_env \<and>
   target_len (Ids [[1, 0], [1, 0], [1, 0]]) = length [''ab'', ''c'', ''d''] \<and>
   map_option fst
     (call example_env initial_state [''ab'', ''c'', ''d''] (Ids [[1, 0], [1, 0], [1, 0]])) =
     Some (Inr (Some [[example_score 1, example_score 0], [example_score 1, example_score 0],
                      [example_score 1, example_score 0]]))"
proof -
  let ?X = "[''ab'', ''c'', ''d'']"
  let ?Y = "Ids [[1, 0], [1, 0], [1, 0]]"
  let ?st1 = "initial_state\<lparr>output_val := Some (Ids [[1, 0]]), names_computed := Suc 0,
      output_names := Some [''?'', ''?'']\<rparr>"
  let ?pair = "[example_score 1, example_score 0]"
  have h1: "0 < batch_size example_env" and n: "nat (batch_size example_env) = 2"
    by (simp_all add: example_env_def)
  have h2: "?X \<noteq> []"
    by simp
  have h3: "target_len ?Y = length ?X"
    by (simp add: target_len_def)
  have h4: "update_output_names example_env initial_state (target_slice 0 1 ?Y) = (Inr (), ?st1)"
    by (simp add: update_output_names_def Let_def initial_state_def target_slice_def
        py_slice_first get_output_names_def get_outputs_def first_row_def example_env_def
        example_decode_def raised_def strip_def is_space_def)
  have cx: "chunks 2 ?X = [[''ab'', ''c''], [''d'']]"
    by (simp add: chunks.simps)
  have cy: "target_chunks 2 ?Y = [Ids [[1, 0], [1, 0]], Ids [[1, 0]]]"
    by (simp add: target_chunks_def chunks.simps)
  have "\<exists>st2. run_chunks example_env ?st1 (zip (chunks 2 ?X) (target_chunks 2 ?Y)) =
      (Inr [[?pair, ?pair], [?pair]], st2)"
    unfolding cx cy
    by (simp add: batch_step_def get_teacher_forced_logits_def get_outputs_def get_inputs_def
        example_env_def example_config_def example_tokenizer_def pad_to_def raised_def
        initial_state_def resolve_start_token_def add_start_token_eq model_inference_def
        run_forward_def example_forward_def py_slice_drop_last get_logodds_def
        current_output_ids_def first_row_def apply_along_axis_def ncols_def calc_logodds_def
        select_output_ids_def index_pairs_def lookup2_def py_index_def example_scores_def
        example_score_def)
  then obtain st2 where h5: "run_chunks example_env ?st1
      (zip (chunks (nat (batch_size example_env)) ?X)
        (target_chunks (nat (batch_size example_env)) ?Y)) = (Inr [[?pair, ?pair], [?pair]], st2)"
    unfolding n by blast
  have h6: "list_all2 (\<lambda>c out. length out = length c)
      (chunks (nat (batch_size example_env)) ?X) [[?pair, ?pair], [?pair]]"
    unfolding n cx by simp
  have h7: "\<forall>out \<in> set [[?pair, ?pair], [?pair]]. \<forall>row \<in> set out. length row = 2"
    by simp
  from call_concatenates_chunks [OF h1 h2 h3 h4 h5 h6 h7] h1 h3 show ?thesis
    by simp
qed

text \<open>
  The claim as it is written fails for arrays without rows. The first call ends with the
  \<^verbatim>\<open>IndexError\<close> of \<^verbatim>\<open>output_ids[0, :]\<close>, after line 137 has stored the empty target; a
  second call finds that target cached, skips the loop, and returns \<^verbatim>\<open>None\<close>.
\<close>

theorem call_empty_counterexample:
  "target_len (Ids []) = length ([] :: string list) \<and>
   call example_env initial_state [] (Ids []) =
     Some (Inl IndexError,
       initial_state\<lparr>output_val := Some (Ids []), names_computed := 1\<rparr>) \<and>
   call example_env (initial_state\<lparr>output_val := Some (Ids []), names_computed := 1\<rparr>)
       [] (Ids []) =
     Some (Inr None, initial_state\<lparr>output_val := Some (Ids []), names_computed := 1\<rparr>)"
proof -
  have "call_loop example_env [] (Ids []) 0 st None = Some (Inr None, st)" for st
    by (subst call_loop.simps) simp
  then show ?thesis
    by (simp add: call_def update_output_names_def Let_def target_slice_def py_slice_first
        target_len_def get_output_names_def get_outputs_def first_row_def initial_state_def)
qed

end
